theory Spec2Isabelle
  imports Main "HOL-Library.Monad_Syntax"
begin

section \<open>Python string operations used by the validator\<close>

text \<open>
  Strings are modelled as lists of 8-bit characters: the model covers text whose code points
  lie between U+0000 and U+00FF, which includes the ASCII text that scene-graph names and
  planner commands consist of.  Each helper below follows the Python built-in it is named
  after, on that range.
\<close>

definition py_isspace :: "char \<Rightarrow> bool" where
  \<comment> \<open>\<open>str.isspace\<close> / regex \<open>\\s\<close>: TAB, LF, VT, FF, CR, FS, GS, RS, US, SPACE, and the
      two white-space characters above ASCII, NEL (U+0085) and NO-BREAK SPACE (U+00A0)\<close>
  "py_isspace c = (of_char c \<in> {9, 10, 11, 12, 13, 28, 29, 30, 31, 32, 133, 160 :: nat})"

definition py_isdigit :: "char \<Rightarrow> bool" where
  "py_isdigit c = (48 \<le> (of_char c :: nat) \<and> (of_char c :: nat) \<le> 57)"

definition is_upper :: "char \<Rightarrow> bool" where
  "is_upper c = (65 \<le> (of_char c :: nat) \<and> (of_char c :: nat) \<le> 90)"

definition is_lower :: "char \<Rightarrow> bool" where
  "is_lower c = (97 \<le> (of_char c :: nat) \<and> (of_char c :: nat) \<le> 122)"

definition is_upper_latin1 :: "char \<Rightarrow> bool" where
  \<comment> \<open>the upper-case letters U+00C0 to U+00DE; U+00D7 is the multiplication sign\<close>
  "is_upper_latin1 c =
     (192 \<le> (of_char c :: nat) \<and> (of_char c :: nat) \<le> 222 \<and> (of_char c :: nat) \<noteq> 215)"

definition lower_char :: "char \<Rightarrow> char" where
  \<comment> \<open>\<open>str.lower\<close> on one character: an upper-case letter is moved up by 32\<close>
  "lower_char c =
     (if is_upper c \<or> is_upper_latin1 c then char_of (of_char c + (32 :: nat)) else c)"

definition py_lower :: "string \<Rightarrow> string" where
  "py_lower s = map lower_char s"

definition py_strip :: "string \<Rightarrow> string" where
  "py_strip s = rev (dropWhile py_isspace (rev (dropWhile py_isspace s)))"

definition startswith :: "string \<Rightarrow> string \<Rightarrow> bool" where
  \<comment> \<open>\<open>s.startswith(p)\<close>\<close>
  "startswith s p = (take (length p) s = p)"

definition endswith :: "string \<Rightarrow> string \<Rightarrow> bool" where
  \<comment> \<open>\<open>s.endswith(p)\<close>\<close>
  "endswith s p = (length p \<le> length s \<and> drop (length s - length p) s = p)"

fun py_in :: "string \<Rightarrow> string \<Rightarrow> bool" where
  \<comment> \<open>\<open>sub in s\<close> for strings\<close>
  "py_in sub [] = (sub = [])"
| "py_in sub (c # cs) = (startswith (c # cs) sub \<or> py_in sub cs)"

text \<open>
  \<open>s.split(sep)\<close> for a non-empty separator: the text is cut at each occurrence of
  \<open>sep\<close>, scanning from the left and skipping over the occurrence just found.  The
  accumulator holds the current piece in reverse.
\<close>

function split_acc :: "string \<Rightarrow> string \<Rightarrow> string \<Rightarrow> string list" where
  "split_acc sep acc [] = [rev acc]"
| "split_acc sep acc (c # cs) =
     (if sep \<noteq> [] \<and> startswith (c # cs) sep
      then rev acc # split_acc sep [] (drop (length sep) (c # cs))
      else split_acc sep (c # acc) cs)"
  by pat_completeness auto
termination
  by (relation "measure (\<lambda>(sep, acc, s). length s)") (auto simp: neq_Nil_conv)

definition py_split :: "string \<Rightarrow> string \<Rightarrow> string list" where
  "py_split s sep = split_acc sep [] s"

definition py_replace :: "string \<Rightarrow> string \<Rightarrow> string \<Rightarrow> string" where
  \<comment> \<open>\<open>s.replace(old, new)\<close> for non-empty \<open>old\<close>: the pieces of the split, joined by \<open>new\<close>\<close>
  "py_replace s old new =
     (case py_split s old of [] \<Rightarrow> [] | p # ps \<Rightarrow> p @ concat (map (\<lambda>q. new @ q) ps))"

function str_of_nat :: "nat \<Rightarrow> string" where
  \<comment> \<open>\<open>str(n)\<close> of a non-negative integer: its decimal digits\<close>
  "str_of_nat n =
     (if n < 10 then [char_of (48 + n)]
      else str_of_nat (n div 10) @ [char_of (48 + n mod 10)])"
  by pat_completeness auto
termination
  by (relation "measure id") auto

definition str_of_int :: "int \<Rightarrow> string" where
  "str_of_int i = (if i < 0 then CHR ''-'' # str_of_nat (nat (- i)) else str_of_nat (nat i))"

definition join_comma :: "string list \<Rightarrow> string" where
  \<comment> \<open>\<open>", ".join(xs)\<close>\<close>
  "join_comma xs = (case xs of [] \<Rightarrow> [] | p # ps \<Rightarrow> p @ concat (map (\<lambda>q. '', '' @ q) ps))"


section \<open>Parsing action commands\<close>

text \<open>
  \<open>_parse_flexible_action_command\<close> applies \<open>re.match\<close> (anchored at the start of the
  text, not at its end) with a fixed list of patterns.  Each pattern is a sequence of
  literals, \<open>\\s+\<close>, \<open>\\s*\<close>, \<open>\\d+\<close> and identifiers whose character classes
  are disjoint from what follows them, so the greedy match is the only one; the matchers
  below consume a prefix and return the remaining text.  Alternations are tried in the
  order of the pattern, each together with the rest of the pattern.
\<close>

definition lit :: "string \<Rightarrow> string \<Rightarrow> string option" where
  "lit p s = (if startswith s p then Some (drop (length p) s) else None)"

definition ws1 :: "string \<Rightarrow> string option" where
  \<comment> \<open>\<open>\\s+\<close>\<close>
  "ws1 s = (case s of [] \<Rightarrow> None
            | c # cs \<Rightarrow> if py_isspace c then Some (dropWhile py_isspace cs) else None)"

definition ws0 :: "string \<Rightarrow> string" where
  \<comment> \<open>\<open>\\s*\<close>\<close>
  "ws0 s = dropWhile py_isspace s"

definition digits1 :: "string \<Rightarrow> string option" where
  \<comment> \<open>\<open>\\d+\<close>\<close>
  "digits1 s = (case s of [] \<Rightarrow> None
                | c # cs \<Rightarrow> if py_isdigit c then Some (dropWhile py_isdigit cs) else None)"

definition ident_start :: "char \<Rightarrow> bool" where
  \<comment> \<open>\<open>[a-zA-Z_]\<close>\<close>
  "ident_start c = (is_lower c \<or> is_upper c \<or> c = CHR ''_'')"

definition ident_char :: "char \<Rightarrow> bool" where
  \<comment> \<open>\<open>[a-zA-Z0-9_/]\<close>\<close>
  "ident_char c = (is_lower c \<or> is_upper c \<or> py_isdigit c \<or> c = CHR ''_'' \<or> c = CHR ''/'')"

definition ident :: "string \<Rightarrow> (string \<times> string) option" where
  \<comment> \<open>\<open>([a-zA-Z_][a-zA-Z0-9_/]*)\<close>: the captured name and the remaining text\<close>
  "ident s = (case s of [] \<Rightarrow> None
              | c # cs \<Rightarrow> if ident_start c
                         then Some (c # takeWhile ident_char cs, dropWhile ident_char cs)
                         else None)"

fun first_some :: "('a \<Rightarrow> 'b option) \<Rightarrow> 'a list \<Rightarrow> 'b option" where
  "first_some f [] = None"
| "first_some f (x # xs) = (case f x of Some y \<Rightarrow> Some y | None \<Rightarrow> first_some f xs)"

definition action_type_prefix :: "string \<Rightarrow> string option" where
  \<comment> \<open>\<open>action\\s+type\\s+\\d+\\s*:\\s*\<close>\<close>
  "action_type_prefix s =
     do { r1 \<leftarrow> lit ''action'' s; r2 \<leftarrow> ws1 r1; r3 \<leftarrow> lit ''type'' r2; r4 \<leftarrow> ws1 r3;
          r5 \<leftarrow> digits1 r4; r6 \<leftarrow> lit '':'' (ws0 r5); Some (ws0 r6) }"

definition open_close_body :: "string \<Rightarrow> (string \<times> string) option" where
  \<comment> \<open>\<open>(open|close)\\s+([a-zA-Z_][a-zA-Z0-9_/]*)\<close>: verb and object name\<close>
  "open_close_body s =
     first_some (\<lambda>v. do { r1 \<leftarrow> lit v s; r2 \<leftarrow> ws1 r1; (name, rest) \<leftarrow> ident r2; Some (v, name) })
       [''open'', ''close'']"

definition target_group :: "string \<Rightarrow> (string \<times> string) option" where
  \<comment> \<open>\<open>([a-zA-Z_][a-zA-Z0-9_/]*|table)\<close>\<close>
  "target_group s =
     (case ident s of Some r \<Rightarrow> Some r
      | None \<Rightarrow> (case lit ''table'' s of Some rest \<Rightarrow> Some (''table'', rest) | None \<Rightarrow> None))"

definition relation_target :: "string \<Rightarrow> (string \<times> string) option" where
  \<comment> \<open>\<open>(in|into|to|on|upon)\\s+([a-zA-Z_][a-zA-Z0-9_/]*|table)\<close>: relation word and target\<close>
  "relation_target s =
     first_some (\<lambda>w. do { r1 \<leftarrow> lit w s; r2 \<leftarrow> ws1 r1; (tgt, rest) \<leftarrow> target_group r2; Some (w, tgt) })
       [''in'', ''into'', ''to'', ''on'', ''upon'']"

definition move_body :: "(string \<Rightarrow> string option) \<Rightarrow> string \<Rightarrow> (string \<times> string \<times> string) option" where
  \<comment> \<open>\<open>VERB\\s+(name)\\s+(relation)\\s+(target)\<close>: source, relation word, target\<close>
  "move_body verb s =
     do { r1 \<leftarrow> verb s; r2 \<leftarrow> ws1 r1; (src, r3) \<leftarrow> ident r2; r4 \<leftarrow> ws1 r3;
          (w, tgt) \<leftarrow> relation_target r4; Some (src, w, tgt) }"

definition put_verb :: "string \<Rightarrow> string option" where
  \<comment> \<open>\<open>[Pp]ut\<close>\<close>
  "put_verb s = (case s of [] \<Rightarrow> None
                 | c # cs \<Rightarrow> if c = CHR ''P'' \<or> c = CHR ''p'' then lit ''ut'' cs else None)"

datatype parsed_action =
    OpenCloseAction (action_verb: string) (target_object: string)
  | MoveAction (source_object: string) (target_location: string) (relation: string)

definition normalize_relation :: "string \<Rightarrow> string" where
  "normalize_relation w =
     (if w = ''into'' then ''in'' else if w = ''to'' \<or> w = ''upon'' then ''on'' else w)"

definition parse_flexible_action_command :: "string \<Rightarrow> parsed_action option" where
  "parse_flexible_action_command command0 =
     (let command = py_lower (py_strip command0) in
      case first_some (\<lambda>p. p command)
             [open_close_body,
              (\<lambda>s. Option.bind (action_type_prefix s) open_close_body)] of
        Some (v, name) \<Rightarrow> Some (OpenCloseAction v name)
      | None \<Rightarrow>
         (case first_some (\<lambda>p. p command)
                 [move_body (lit ''move''),
                  (\<lambda>s. Option.bind (action_type_prefix s) (move_body (lit ''move''))),
                  move_body put_verb,
                  (\<lambda>s. Option.bind (action_type_prefix s) (move_body put_verb))] of
            Some (src, w, tgt) \<Rightarrow> Some (MoveAction src tgt (normalize_relation w))
          | None \<Rightarrow> None))"


section \<open>Scene graphs and their analysis\<close>

text \<open>
  A scene graph is the dictionary \<open>{"timestamp": .., "nodes": [..], "edges": [..]}\<close>; each
  key may be absent (the store starts with the empty dictionary), and \<open>.get(key, [])\<close> reads
  an absent list as empty.  Nodes are strings, or integers in the legacy format.
\<close>

datatype node = NodeStr string | NodeInt int

record scene_graph =
  sg_timestamp :: "int option"
  sg_nodes :: "node list option"
  sg_edges :: "string list option"

definition empty_dict :: scene_graph where
  "empty_dict = \<lparr>sg_timestamp = None, sg_nodes = None, sg_edges = None\<rparr>"

definition get_nodes :: "scene_graph \<Rightarrow> node list" where
  "get_nodes g = (case sg_nodes g of None \<Rightarrow> [] | Some ns \<Rightarrow> ns)"

definition get_edges :: "scene_graph \<Rightarrow> string list" where
  "get_edges g = (case sg_edges g of None \<Rightarrow> [] | Some es \<Rightarrow> es)"

definition node_str :: "node \<Rightarrow> string" where
  \<comment> \<open>\<open>str(node)\<close>\<close>
  "node_str n = (case n of NodeStr s \<Rightarrow> s | NodeInt i \<Rightarrow> str_of_int i)"

definition strip_state :: "string \<Rightarrow> string" where
  \<comment> \<open>\<open>name.replace('(open)', '').replace('(closed)', '')\<close>\<close>
  "strip_state s = py_replace (py_replace s ''(open)'' []) ''(closed)'' []"

text \<open>
  The analysis keeps Python sets as lists: only membership, removal of an element and the
  number of distinct elements are observed.
\<close>

record scene_analysis =
  all_objects :: "string list"
  movable_objects :: "string list"
  blocked_objects :: "string list"
  table_status :: string
  stack_count :: nat
  sa_edges :: "string list"
  objects_on_table :: "string list"
  scene_graph_data :: scene_graph

definition add_unless_table :: "string \<Rightarrow> string list \<Rightarrow> string list" where
  "add_unless_table x acc = (if x \<noteq> ''table'' then acc @ [x] else acc)"

definition collect_edge_objects :: "string \<Rightarrow> string list \<Rightarrow> string list" where
  \<comment> \<open>body of the first loop over the edges\<close>
  "collect_edge_objects edge acc =
     (if py_in ''(on)'' edge \<or> py_in ''(in)'' edge then
        (case (if py_in ''(on)'' edge then py_split edge ''(on)'' else py_split edge ''(in)'') of
           [p0, p1] \<Rightarrow>
             add_unless_table (strip_state (py_strip p1))
               (add_unless_table (strip_state (py_strip p0)) acc)
         | _ \<Rightarrow> acc)
      else acc)"

definition collect_node_object :: "node \<Rightarrow> string list \<Rightarrow> string list" where
  \<comment> \<open>body of the loop over the nodes: the integer 0 and non-strings are skipped\<close>
  "collect_node_object n acc =
     (case n of
        NodeInt i \<Rightarrow> acc
      | NodeStr s \<Rightarrow>
          (let node_clean = strip_state s
           in if node_clean \<noteq> [] \<and> node_clean \<noteq> ''table'' then acc @ [node_clean] else acc))"

definition classify_edge ::
  "string \<Rightarrow> string list \<times> string list \<times> string \<times> string list
          \<Rightarrow> string list \<times> string list \<times> string \<times> string list" where
  \<comment> \<open>body of the second loop: (movable, blocked, table status, objects on the table)\<close>
  "classify_edge edge st =
     (case st of (movable, blocked, status, on_table) \<Rightarrow>
       if py_in ''='' edge then
         (if startswith edge ''0='' then (movable, blocked, py_split edge ''='' ! 1, on_table)
          else st)
       else if py_in ''(on)'' edge then
         (case py_split edge ''(on)'' of
            [p0, p1] \<Rightarrow>
              (let object_above_clean = strip_state (py_strip p0);
                   target_object_clean = strip_state (py_strip p1)
               in if target_object_clean = ''table''
                  then (movable, blocked, status, on_table @ [object_above_clean])
                  else (removeAll target_object_clean movable,
                        blocked @ [target_object_clean], status, on_table))
          | _ \<Rightarrow> st)
       else st)"

definition analyze_scene_graph :: "scene_graph \<Rightarrow> scene_analysis" where
  "analyze_scene_graph g =
     (let edges = get_edges g;
          nodes = get_nodes g;
          objs = foldl (\<lambda>acc n. collect_node_object n acc)
                   (foldl (\<lambda>acc e. collect_edge_objects e acc) [] edges) nodes
      in case foldl (\<lambda>st e. classify_edge e st) (objs, [], ''T'', []) edges of
           (movable, blocked, status, on_table) \<Rightarrow>
             \<lparr>all_objects = objs, movable_objects = movable, blocked_objects = blocked,
              table_status = status, stack_count = length (remdups on_table),
              sa_edges = edges, objects_on_table = on_table, scene_graph_data = g\<rparr>)"

section \<open>Object kinds and states\<close>

definition is_cube :: "string \<Rightarrow> bool" where
  "is_cube object_name = (endswith object_name ''_cube'' \<or> py_in ''cube'' (py_lower object_name))"

definition is_mug :: "string \<Rightarrow> bool" where
  "is_mug object_name = (endswith object_name ''_mug'' \<or> py_in ''mug'' (py_lower object_name))"

definition is_container :: "string \<Rightarrow> bool" where
  "is_container object_name =
     (let object_name_lower = py_lower object_name
      in py_in ''drawer'' object_name_lower \<or> py_in ''lid_box'' object_name_lower
         \<or> endswith object_name_lower ''_box'')"

definition is_valid_target_location :: "string \<Rightarrow> bool \<times> string" where
  "is_valid_target_location target =
     (if is_cube target then
        (False, ''Cannot place objects on cube '' @ [CHR 0x27] @ target @ [CHR 0x27]
                @ ''. Cubes cannot support other objects.'')
      else if is_mug target then
        (False, ''Cannot place objects on mug '' @ [CHR 0x27] @ target @ [CHR 0x27]
                @ ''. Mugs cannot support other objects.'')
      else (True, ''Target location '' @ [CHR 0x27] @ target @ [CHR 0x27]
                  @ '' is valid for placement''))"

fun state_from_nodes :: "string \<Rightarrow> node list \<Rightarrow> string option" where
  \<comment> \<open>first loop of \<open>_get_object_state\<close>: a node \<open>name(...)\<close> carrying a state tag\<close>
  "state_from_nodes object_name [] = None"
| "state_from_nodes object_name (n # ns) =
     (if startswith (node_str n) (object_name @ ''('') then
        (if py_in ''(open)'' (node_str n) then Some ''open''
         else if py_in ''(closed)'' (node_str n) then Some ''closed''
         else state_from_nodes object_name ns)
      else state_from_nodes object_name ns)"

fun state_from_edges :: "string \<Rightarrow> string list \<Rightarrow> string option" where
  \<comment> \<open>second loop of \<open>_get_object_state\<close>: an edge mentioning \<open>name(open)\<close> or \<open>name(closed)\<close>\<close>
  "state_from_edges object_name [] = None"
| "state_from_edges object_name (e # es) =
     (if py_in object_name e then
        (if py_in (object_name @ ''(open)'') e then Some ''open''
         else if py_in (object_name @ ''(closed)'') e then Some ''closed''
         else state_from_edges object_name es)
      else state_from_edges object_name es)"

definition get_object_state :: "string \<Rightarrow> scene_analysis \<Rightarrow> string option" where
  "get_object_state object_name analysis =
     (let g = scene_graph_data analysis
      in case state_from_nodes object_name (get_nodes g) of
           Some st \<Rightarrow> Some st
         | None \<Rightarrow> state_from_edges object_name (get_edges g))"

definition check_drawer_constraints :: "string \<Rightarrow> scene_analysis \<Rightarrow> bool \<times> string" where
  "check_drawer_constraints drawer_name analysis =
     (if get_object_state drawer_name analysis \<noteq> Some ''open'' then
        (False, drawer_name @ '' is not open. Please open '' @ drawer_name @ '' first.'')
      else if drawer_name = ''short_cabinet/drawer_low'' then
        (if get_object_state ''short_cabinet/drawer_middle'' analysis = Some ''open'' then
           (False, ''Cannot access '' @ drawer_name @ '' because short_cabinet/drawer_middle is open. Please close short_cabinet/drawer_middle first.'')
         else if get_object_state ''short_cabinet/drawer_high'' analysis = Some ''open'' then
           (False, ''Cannot access '' @ drawer_name @ '' because short_cabinet/drawer_high is open. Please close short_cabinet/drawer_high first.'')
         else (True, drawer_name @ '' is accessible (middle and high drawers are closed)''))
      else if drawer_name = ''short_cabinet/drawer_middle'' then
        (if get_object_state ''short_cabinet/drawer_high'' analysis = Some ''open'' then
           (False, ''Cannot access '' @ drawer_name @ '' because short_cabinet/drawer_high is open. Please close short_cabinet/drawer_high first.'')
         else (True, drawer_name @ '' is accessible (high drawer is closed)''))
      else if drawer_name = ''short_cabinet/drawer_high'' then
        (True, drawer_name @ '' is accessible (top drawer, no additional constraints)'')
      else (True, drawer_name @ '' is accessible''))"

section \<open>Movability, accessibility and capacity checks\<close>

fun first_on_blocker :: "string \<Rightarrow> string list \<Rightarrow> string option" where
  \<comment> \<open>the first edge \<open>X(on)name\<close> (split into exactly two parts): the object \<open>X\<close>\<close>
  "first_on_blocker name [] = None"
| "first_on_blocker name (edge # es) =
     (if py_in ''(on)'' edge then
        (case py_split edge ''(on)'' of
           [p0, p1] \<Rightarrow> if py_strip p1 = name then Some (py_strip p0) else first_on_blocker name es
         | _ \<Rightarrow> first_on_blocker name es)
      else first_on_blocker name es)"

fun find_container :: "string \<Rightarrow> string list \<Rightarrow> string option" where
  \<comment> \<open>the first edge \<open>name(in)C\<close>: the container \<open>C\<close>\<close>
  "find_container name [] = None"
| "find_container name (edge # es) =
     (if py_in ''(in)'' edge then
        (case py_split edge ''(in)'' of
           [p0, p1] \<Rightarrow> if py_strip p0 = name then Some (py_strip p1) else find_container name es
         | _ \<Rightarrow> find_container name es)
      else find_container name es)"

definition can_move_object :: "string \<Rightarrow> scene_analysis \<Rightarrow> bool \<times> string" where
  "can_move_object object_name analysis =
     (let edges = sa_edges analysis in
      case first_on_blocker object_name edges of
        Some object_above \<Rightarrow>
          (False, object_name @ '' is blocked by '' @ object_above @ '' on top of it'')
      | None \<Rightarrow>
         (case find_container object_name edges of
            None \<Rightarrow> (True, object_name @ '' can be moved (no objects blocking it)'')
          | Some object_container \<Rightarrow>
             if object_container = [] then
               (True, object_name @ '' can be moved (no objects blocking it)'')
             else if get_object_state object_container analysis = Some ''closed'' then
               (False, ''Cannot move '' @ object_name @ '' from '' @ object_container
                       @ '' because the container is closed. Please open ''
                       @ object_container @ '' first.'')
             else if py_in ''drawer'' object_container
                     \<and> \<not> fst (check_drawer_constraints object_container analysis) then
               (False, snd (check_drawer_constraints object_container analysis))
             else
               (case first_on_blocker object_container edges of
                  Some blocking_object \<Rightarrow>
                    (False, object_name @ '' cannot be moved because its container ''
                            @ object_container @ '' is blocked by '' @ blocking_object)
                | None \<Rightarrow> (True, object_name @ '' can be moved (no objects blocking it)''))))"

definition on_blockers :: "string \<Rightarrow> string list \<Rightarrow> string list" where
  \<comment> \<open>all objects \<open>X\<close> with an edge \<open>X(on)name\<close> that splits into exactly two parts\<close>
  "on_blockers name edges =
     concat (map (\<lambda>edge.
        if py_in ''(on)'' edge then
          (case py_split edge ''(on)'' of
             [p0, p1] \<Rightarrow> if py_strip p1 = name then [py_strip p0] else []
           | _ \<Rightarrow> [])
        else []) edges)"

definition can_access_target :: "string \<Rightarrow> scene_analysis \<Rightarrow> bool \<times> string" where
  "can_access_target target_name analysis =
     (let edges = sa_edges analysis;
          blocking_objects = on_blockers target_name edges
      in if blocking_objects \<noteq> [] then
           (False, target_name @ '' is blocked by objects on top: ''
                   @ join_comma blocking_objects @ ''. Must clear these objects first.'')
         else if (py_in ''lid_box'' target_name \<or> py_in ''drawer'' target_name)
                 \<and> get_object_state target_name analysis = Some ''closed'' then
           (False, ''Cannot place objects in '' @ target_name
                   @ '' because it is closed. Please open '' @ target_name @ '' first.'')
         else if (py_in ''lid_box'' target_name \<or> py_in ''drawer'' target_name)
                 \<and> py_in ''drawer'' target_name
                 \<and> \<not> fst (check_drawer_constraints target_name analysis) then
           (False, snd (check_drawer_constraints target_name analysis))
         else (True, target_name @ '' is accessible (no objects blocking from above)''))"

fun cube_location :: "string \<Rightarrow> string list \<Rightarrow> (string \<times> bool) option" where
  \<comment> \<open>loop of \<open>_can_place_cube_in_box\<close>: the cube's first placement edge, and whether it
      is an \<open>(in)\<close> edge.  An edge containing \<open>cube(in)\<close> is never tried as an \<open>(on)\<close> edge.\<close>
  "cube_location cube_name [] = None"
| "cube_location cube_name (edge # es) =
     (if py_in (cube_name @ ''(in)'') edge then
        (case py_split edge ''(in)'' of
           [p0, p1] \<Rightarrow> if py_strip p0 = cube_name then Some (py_strip p1, True)
                       else cube_location cube_name es
         | _ \<Rightarrow> cube_location cube_name es)
      else if py_in (cube_name @ ''(on)'') edge then
        (case py_split edge ''(on)'' of
           [p0, p1] \<Rightarrow> if py_strip p0 = cube_name then Some (py_strip p1, False)
                       else cube_location cube_name es
         | _ \<Rightarrow> cube_location cube_name es)
      else cube_location cube_name es)"

definition on_blockers_suffix :: "string \<Rightarrow> string list \<Rightarrow> string list" where
  \<comment> \<open>all \<open>X\<close> from edges that end with \<open>(on)name\<close> and split into exactly two parts\<close>
  "on_blockers_suffix name edges =
     concat (map (\<lambda>edge.
        if py_in ''(on)'' edge \<and> endswith edge (''(on)'' @ name) then
          (case py_split edge ''(on)'' of [p0, p1] \<Rightarrow> [py_strip p0] | _ \<Rightarrow> [])
        else []) edges)"

definition cubes_in_target :: "string \<Rightarrow> string list \<Rightarrow> nat" where
  \<comment> \<open>the number of edges \<open>X(in)target\<close> whose object \<open>X\<close> is a cube\<close>
  "cubes_in_target target_box edges =
     length (filter (\<lambda>edge.
        py_in ''(in)'' edge \<and> endswith edge (''(in)'' @ target_box) \<and>
        (case py_split edge ''(in)'' of [p0, p1] \<Rightarrow> is_cube (py_strip p0) | _ \<Rightarrow> False)) edges)"

definition can_place_cube_in_box :: "string \<Rightarrow> string \<Rightarrow> scene_analysis \<Rightarrow> bool \<times> string" where
  "can_place_cube_in_box cube_name target_box analysis =
     (let edges = sa_edges analysis;
          source_blockers =
            (case cube_location cube_name edges of
               Some (loc, True) \<Rightarrow> if loc \<noteq> [] then Some (loc, on_blockers_suffix loc edges) else None
             | _ \<Rightarrow> None);
          target_blocking_objects = on_blockers_suffix target_box edges;
          n = cubes_in_target target_box edges
      in case source_blockers of
           Some (loc, b # bs) \<Rightarrow>
             (False, ''Cannot move '' @ cube_name @ '' from '' @ loc
                     @ '' because container is blocked by: '' @ join_comma (b # bs)
                     @ ''. Must clear these objects first.'')
         | _ \<Rightarrow>
           if target_blocking_objects \<noteq> [] then
             (False, ''Cannot place '' @ cube_name @ '' in '' @ target_box
                     @ '' because target container is blocked by: ''
                     @ join_comma target_blocking_objects @ ''. Must clear these objects first.'')
           else if n \<ge> 10 then
             (False, ''Cannot place '' @ cube_name @ '' in '' @ target_box
                     @ '' because container is at capacity ('' @ str_of_nat n @ ''/3 cubes).'')
           else
             (True, ''Can move '' @ cube_name @ '' to '' @ target_box
                    @ ''. Source accessible, target accessible, target has capacity (''
                    @ str_of_nat n @ ''/3).''))"

definition check_action_already_completed ::
  "string \<Rightarrow> string \<Rightarrow> string \<Rightarrow> scene_analysis \<Rightarrow> bool \<times> string" where
  "check_action_already_completed source target rel analysis =
     (let edges = sa_edges analysis;
          expected_edge = source @ ''('' @ rel @ '')'' @ target
      in if expected_edge \<in> set edges then
           (True, source @ '' is already '' @ rel @ '' '' @ target)
         else if target = ''table'' \<and> (source @ ''(on)table'') \<in> set edges then
           (True, source @ '' is already on table'')
         else (False, source @ '' is not yet '' @ rel @ '' '' @ target))"

fun cube_source_location :: "string \<Rightarrow> string list \<Rightarrow> (string \<times> bool) option" where
  \<comment> \<open>loop of \<open>_validate_cube_source_accessibility\<close>: location and the in-container flag\<close>
  "cube_source_location cube_name [] = None"
| "cube_source_location cube_name (edge # es) =
     (if py_in (cube_name @ ''(in)'') edge then
        (case py_split edge ''(in)'' of
           [p0, p1] \<Rightarrow> if py_strip p0 = cube_name then Some (py_strip p1, True)
                       else cube_source_location cube_name es
         | _ \<Rightarrow> cube_source_location cube_name es)
      else if py_in (cube_name @ ''(on)'') edge then
        (case py_split edge ''(on)'' of
           [p0, p1] \<Rightarrow> if py_strip p0 = cube_name
                       then Some (py_strip p1, py_strip p1 \<noteq> ''table'')
                       else cube_source_location cube_name es
         | _ \<Rightarrow> cube_source_location cube_name es)
      else cube_source_location cube_name es)"

definition validate_cube_source_accessibility :: "string \<Rightarrow> scene_analysis \<Rightarrow> bool \<times> string" where
  "validate_cube_source_accessibility cube_name analysis =
     (let edges = sa_edges analysis in
      case cube_source_location cube_name edges of
        None \<Rightarrow> (False, ''Cannot determine current location of '' @ cube_name)
      | Some (loc, in_container) \<Rightarrow>
          if loc = [] then (False, ''Cannot determine current location of '' @ cube_name)
          else if loc = ''table'' then (True, cube_name @ '' is on table, directly accessible'')
          else if in_container then
            (let blocking_objects = on_blockers_suffix loc edges
             in if blocking_objects \<noteq> [] then
                  (False, ''Container '' @ loc @ '' is blocked by: '' @ join_comma blocking_objects
                          @ ''. Must clear these objects first before accessing '' @ cube_name @ ''.'')
                else (True, ''Container '' @ loc @ '' is accessible, can move '' @ cube_name))
          else (True, cube_name @ '' appears to be accessible from '' @ loc))"

section \<open>Validating a command against the scene graph\<close>

text \<open>
  The result dictionary of a validation: \<open>is_valid\<close>, \<open>error_reason\<close>, the dictionary
  \<open>validation_details\<close> of boolean sub-checks.  Keys that only report context or advice
  (the sorted object lists, the action summary, the \<open>suggestion\<close> text) are not modelled.
  For scene graphs of the shape above no sub-check raises, so the \<open>except\<close> branches of
  the sub-checks are not reached.
\<close>

record validation_result =
  is_valid :: bool
  error_reason :: "string option"
  validation_details :: "(string \<times> bool) list"

definition sq :: string where
  \<comment> \<open>the single-quote character used inside messages\<close>
  "sq = [CHR 0x27]"

definition set_detail :: "string \<Rightarrow> (string \<times> bool) list \<Rightarrow> (string \<times> bool) list" where
  \<comment> \<open>\<open>validation_details[key] = True\<close>\<close>
  "set_detail key details = map (\<lambda>(k, v). if k = key then (k, True) else (k, v)) details"

definition invalid :: "string \<Rightarrow> (string \<times> bool) list \<Rightarrow> validation_result" where
  "invalid reason details =
     \<lparr>is_valid = False, error_reason = Some reason, validation_details = details\<rparr>"

definition valid :: "(string \<times> bool) list \<Rightarrow> validation_result" where
  "valid details =
     \<lparr>is_valid = True, error_reason = None, validation_details = details\<rparr>"

fun find_in_nodes :: "string \<Rightarrow> node list \<Rightarrow> string option option" where
  \<comment> \<open>node loop of \<open>_validate_open_close_action\<close>: \<open>None\<close> when no node names the object,
      otherwise the state read from the first node that does\<close>
  "find_in_nodes target [] = None"
| "find_in_nodes target (n # ns) =
     (if node_str n = target then Some None
      else if startswith (node_str n) (target @ ''('') then
        Some (if py_in ''(open)'' (node_str n) then Some ''open''
              else if py_in ''(closed)'' (node_str n) then Some ''closed'' else None)
      else find_in_nodes target ns)"

fun find_in_edges :: "string \<Rightarrow> string list \<Rightarrow> string option option" where
  \<comment> \<open>edge loop of \<open>_validate_open_close_action\<close>, used when no node names the object\<close>
  "find_in_edges target [] = None"
| "find_in_edges target (e # es) =
     (if py_in target e then
        Some (if py_in (target @ ''(open)'') e then Some ''open''
              else if py_in (target @ ''(closed)'') e then Some ''closed'' else None)
      else find_in_edges target es)"

definition validate_open_close_action :: "string \<Rightarrow> string \<Rightarrow> scene_graph \<Rightarrow> validation_result" where
  "validate_open_close_action action_type target g =
     (let details = [(''object_exists'', False), (''state_valid'', False), (''action_valid'', False)];
          found = (case find_in_nodes target (get_nodes g) of
                     Some st \<Rightarrow> Some st
                   | None \<Rightarrow> find_in_edges target (get_edges g))
      in case found of
           None \<Rightarrow>
             invalid (''Object '' @ sq @ target @ sq @ '' not found in scene graph'') details
         | Some current_state \<Rightarrow>
             (let details1 = set_detail ''object_exists'' details
              in case current_state of
                   None \<Rightarrow>
                     invalid (''Object '' @ sq @ target @ sq
                              @ '' does not have open/close state information in scene graph'')
                       details1
                 | Some st \<Rightarrow>
                     if action_type = ''open'' \<and> st = ''open'' then
                       invalid (''Object '' @ sq @ target @ sq
                                @ '' is already open. Cannot open an already opened object.'')
                         details1
                     else if action_type = ''close'' \<and> st = ''closed'' then
                       invalid (''Object '' @ sq @ target @ sq
                                @ '' is already closed. Cannot close an already closed object.'')
                         details1
                     else valid (set_detail ''action_valid'' (set_detail ''state_valid'' details1))))"

definition validate_move ::
  "string \<Rightarrow> string \<Rightarrow> string \<Rightarrow> scene_graph \<Rightarrow> validation_result" where
  \<comment> \<open>the move branch of \<open>_validate_action_command\<close>, checks in the order of the source\<close>
  "validate_move source target rel g =
     (let details = [(''objects_exist'', False), (''source_movable'', False),
                     (''target_accessible'', False), (''action_valid'', False)];
          analysis = analyze_scene_graph g;
          details1 = set_detail ''objects_exist'' details;
          details2 = set_detail ''source_movable'' details1;
          details3 = set_detail ''target_accessible'' details2
      in
      if source \<notin> set (all_objects analysis) then
        invalid (''Source object '' @ sq @ source @ sq @ '' not found in scene'') details
      else if target \<noteq> ''table'' \<and> target \<notin> set (all_objects analysis) then
        invalid (''Target location '' @ sq @ target @ sq @ '' not found in scene'') details
      else if is_cube source \<and> \<not> fst (validate_cube_source_accessibility source analysis) then
        invalid (''Cannot move cube '' @ source @ '': ''
                 @ snd (validate_cube_source_accessibility source analysis)) details1
      else if \<not> fst (can_move_object source analysis) then
        invalid (''Cannot move '' @ source @ '': '' @ snd (can_move_object source analysis))
          details1
      else if target \<noteq> ''table'' \<and> is_container source \<and> is_container target then
        invalid (''Cannot move container '' @ sq @ source @ sq @ '' into another container ''
                 @ sq @ target @ sq @ ''. Containers cannot be placed inside other containers.'')
          details2
      else if target \<noteq> ''table'' \<and> \<not> fst (is_valid_target_location target) then
        invalid (snd (is_valid_target_location target)) details2
      else if target \<noteq> ''table'' \<and> \<not> fst (can_access_target target analysis) then
        invalid (''Cannot place on '' @ target @ '': '' @ snd (can_access_target target analysis))
          details2
      else if target \<noteq> ''table'' \<and> is_cube source
              \<and> \<not> fst (can_place_cube_in_box source target analysis) then
        invalid (''Cannot place cube '' @ source @ '' in '' @ target @ '': ''
                 @ snd (can_place_cube_in_box source target analysis)) details2
      else if target = ''table'' \<and> table_status analysis = ''F'' then
        invalid ''Table is full (3 stacks maximum)'' details2
      else if fst (check_action_already_completed source target rel analysis) then
        invalid (''Action already completed: ''
                 @ snd (check_action_already_completed source target rel analysis)) details3
      else valid (set_detail ''action_valid'' details3))"

definition validate_action_command :: "string \<Rightarrow> scene_graph \<Rightarrow> validation_result" where
  "validate_action_command command g =
     (case parse_flexible_action_command command of
        None \<Rightarrow>
          invalid (''Cannot parse action: '' @ command)
            [(''objects_exist'', False), (''source_movable'', False),
             (''target_accessible'', False), (''action_valid'', False)]
      | Some (OpenCloseAction action_type target) \<Rightarrow>
          validate_open_close_action action_type target g
      | Some (MoveAction source target rel) \<Rightarrow> validate_move source target rel g)"

text \<open>
  The checks of the move branch that come before the idempotence check, in the order in
  which \<open>_validate_action_command\<close> makes them: for each one whether it fails, and the
  \<open>error_reason\<close> the validator returns when it does.
\<close>

definition earlier_checks :: "string \<Rightarrow> string \<Rightarrow> scene_analysis \<Rightarrow> (bool \<times> string) list" where
  "earlier_checks source target analysis =
     [\<comment> \<open>the source object is in the scene\<close>
      (source \<notin> set (all_objects analysis),
       ''Source object '' @ sq @ source @ sq @ '' not found in scene''),
      \<comment> \<open>the target location is the table or in the scene\<close>
      (target \<noteq> ''table'' \<and> target \<notin> set (all_objects analysis),
       ''Target location '' @ sq @ target @ sq @ '' not found in scene''),
      \<comment> \<open>the place of a cube can be reached\<close>
      (is_cube source \<and> \<not> fst (validate_cube_source_accessibility source analysis),
       ''Cannot move cube '' @ source @ '': ''
         @ snd (validate_cube_source_accessibility source analysis)),
      \<comment> \<open>the object can be moved\<close>
      (\<not> fst (can_move_object source analysis),
       ''Cannot move '' @ source @ '': '' @ snd (can_move_object source analysis)),
      \<comment> \<open>a container does not go into another container\<close>
      (target \<noteq> ''table'' \<and> is_container source \<and> is_container target,
       ''Cannot move container '' @ sq @ source @ sq @ '' into another container ''
         @ sq @ target @ sq @ ''. Containers cannot be placed inside other containers.''),
      \<comment> \<open>the target can support objects\<close>
      (target \<noteq> ''table'' \<and> \<not> fst (is_valid_target_location target),
       snd (is_valid_target_location target)),
      \<comment> \<open>the target can be reached\<close>
      (target \<noteq> ''table'' \<and> \<not> fst (can_access_target target analysis),
       ''Cannot place on '' @ target @ '': '' @ snd (can_access_target target analysis)),
      \<comment> \<open>a cube fits into the target\<close>
      (target \<noteq> ''table'' \<and> is_cube source
         \<and> \<not> fst (can_place_cube_in_box source target analysis),
       ''Cannot place cube '' @ source @ '' in '' @ target @ '': ''
         @ snd (can_place_cube_in_box source target analysis)),
      \<comment> \<open>the table has room\<close>
      (target = ''table'' \<and> table_status analysis = ''F'',
       ''Table is full (3 stacks maximum)'')]"

definition first_failure :: "(bool \<times> string) list \<Rightarrow> string option" where
  \<comment> \<open>the reason of the first check of the list that fails\<close>
  "first_failure checks = map_option snd (List.find fst checks)"

section \<open>The drawer ordering rule\<close>

definition drawer_rule :: "string \<Rightarrow> scene_analysis \<Rightarrow> bool" where
  \<comment> \<open>the rule table of the cabinet: the drawer itself is open; for the low drawer neither
      the middle nor the high drawer is open; for the middle drawer the high one is not open\<close>
  "drawer_rule d a =
     (get_object_state d a = Some ''open'' \<and>
      (d = ''short_cabinet/drawer_low'' \<longrightarrow>
         get_object_state ''short_cabinet/drawer_middle'' a \<noteq> Some ''open'' \<and>
         get_object_state ''short_cabinet/drawer_high'' a \<noteq> Some ''open'') \<and>
      (d = ''short_cabinet/drawer_middle'' \<longrightarrow>
         get_object_state ''short_cabinet/drawer_high'' a \<noteq> Some ''open''))"

section \<open>The scene-graph store\<close>

text \<open>
  \<open>SceneGraphManager\<close>: the current snapshot with the raw bus message it came from, and
  the stability tracking used while a caller waits for an update.  The thresholds come
  from \<open>STABILITY_CONFIG\<close> (\<open>stable_frame_threshold = 5\<close>, \<open>max_history_size = 15\<close>).
\<close>

record store =
  current_scene_graph :: scene_graph
  raw_msg :: "string option"
  scene_graph_history :: "scene_graph list"
  stable_frame_count :: nat
  last_scene_graph :: scene_graph
  waiting_for_update :: bool
  stable_frame_threshold :: nat
  max_history_size :: nat
  parse_success_count :: nat
  parse_error_count :: nat

definition init_store :: store where
  \<comment> \<open>\<open>SceneGraphManager.__init__\<close>\<close>
  "init_store =
     \<lparr>current_scene_graph = empty_dict, raw_msg = None, scene_graph_history = [],
      stable_frame_count = 0, last_scene_graph = empty_dict, waiting_for_update = False,
      stable_frame_threshold = 5, max_history_size = 15,
      parse_success_count = 0, parse_error_count = 0\<rparr>"

definition truthy :: "scene_graph \<Rightarrow> bool" where
  \<comment> \<open>\<open>if parsed_data:\<close> a dictionary is false exactly when it has no key\<close>
  "truthy g = (g \<noteq> empty_dict)"

definition check_stability :: "scene_graph \<Rightarrow> store \<Rightarrow> store" where
  "check_stability new_scene_graph s =
     (if length (scene_graph_history s) = 0 then
        s\<lparr>scene_graph_history := [new_scene_graph], stable_frame_count := 1\<rparr>
      else if last (scene_graph_history s) = new_scene_graph then
        (let s1 = s\<lparr>stable_frame_count := stable_frame_count s + 1\<rparr>
         in if length (scene_graph_history s1) < max_history_size s1
            then s1\<lparr>scene_graph_history := scene_graph_history s1 @ [new_scene_graph]\<rparr>
            else s1)
      else s\<lparr>stable_frame_count := 1, scene_graph_history := [new_scene_graph]\<rparr>)"

datatype raw_data = RawText string | RawDict scene_graph | RawOther

definition update_scene_graph ::
  "(string \<Rightarrow> scene_graph option) \<Rightarrow> raw_data \<Rightarrow> string option \<Rightarrow> store \<Rightarrow> store" where
  \<comment> \<open>\<open>parse_text\<close> stands for \<open>_parse_and_convert_scene_graph\<close> on textual input (JSON
      decoding and the legacy text conversion); the bus callback passes dictionaries.
      Unsupported input is dropped; data that is missing or false counts as a parse error.\<close>
  "update_scene_graph parse_text raw msg s =
     (case (case raw of RawText t \<Rightarrow> Some (parse_text t)
                      | RawDict d \<Rightarrow> Some (Some d)
                      | RawOther \<Rightarrow> None) of
        None \<Rightarrow> s
      | Some parsed \<Rightarrow>
          (case parsed of
             None \<Rightarrow> s\<lparr>parse_error_count := parse_error_count s + 1\<rparr>
           | Some parsed_data \<Rightarrow>
               if truthy parsed_data then
                 (let s1 = s\<lparr>raw_msg := msg, current_scene_graph := parsed_data,
                             parse_success_count := parse_success_count s + 1\<rparr>
                  in if waiting_for_update s1 then check_stability parsed_data s1 else s1)
               else s\<lparr>parse_error_count := parse_error_count s + 1\<rparr>))"

definition get_current_scene_graph :: "store \<Rightarrow> scene_graph" where
  "get_current_scene_graph s = current_scene_graph s"

definition get_current_raw_msg :: "store \<Rightarrow> string option \<times> scene_graph" where
  "get_current_raw_msg s = (raw_msg s, current_scene_graph s)"

definition start_waiting_for_update :: "scene_graph \<Rightarrow> store \<Rightarrow> store" where
  "start_waiting_for_update reference_scene_graph s =
     s\<lparr>waiting_for_update := True, stable_frame_count := 0, scene_graph_history := [],
       last_scene_graph := reference_scene_graph\<rparr>"

definition stop_waiting_for_update :: "store \<Rightarrow> store" where
  "stop_waiting_for_update s =
     s\<lparr>waiting_for_update := False, stable_frame_count := 0, scene_graph_history := [],
       last_scene_graph := empty_dict\<rparr>"

record update_status =
  is_waiting :: bool
  is_stable :: bool
  has_real_change :: bool
  stable_scene_graph :: "scene_graph option"
  status_frame_count :: "nat option"
  required_frames :: "nat option"

definition check_update_status :: "store \<Rightarrow> update_status" where
  "check_update_status s =
     (if \<not> waiting_for_update s then
        \<lparr>is_waiting = False, is_stable = False, has_real_change = False,
         stable_scene_graph = None, status_frame_count = None, required_frames = None\<rparr>
      else
        (let stable = (stable_frame_count s \<ge> stable_frame_threshold s);
             settled = (if stable \<and> scene_graph_history s \<noteq> []
                        then Some (scene_graph_history s ! 0) else None)
         in \<lparr>is_waiting = True, is_stable = stable,
             has_real_change = (case settled of None \<Rightarrow> False
                                | Some g \<Rightarrow> g \<noteq> last_scene_graph s),
             stable_scene_graph = settled,
             status_frame_count = Some (stable_frame_count s),
             required_frames = Some (stable_frame_threshold s)\<rparr>))"

section \<open>The validate-and-execute tool\<close>

text \<open>
  \<open>ActionValidationExecutionTool\<close> together with the store it reads.  The message bus is
  the environment: every pump of the bus (\<open>spin_once\<close>) handles the next pending event, if
  any.  \<open>ros_up\<close> says whether ROS is available and initialised, and \<open>max_polls\<close> is the
  number of iterations of the wait loop that start before \<open>max_wait_time\<close> has elapsed.
\<close>

datatype bus_event =
    Quiet
  | SceneUpdate scene_graph string
  | Trigger bool
  | SpinError string

record env =
  ros_up :: bool
  max_polls :: nat

record tool =
  manager :: store
  agent_present :: bool
  ros_node :: bool
  validation_count :: nat
  success_count :: nat
  consecutive_failures :: nat
  max_consecutive_failures :: nat
  init_raw_data :: "string option"
  init_scene_graph_data :: "scene_graph option"
  trigger_received :: bool
  published :: "(string \<times> string) list"

definition init_tool :: "store \<Rightarrow> bool \<Rightarrow> tool" where
  \<comment> \<open>\<open>__init__\<close>: no publisher yet, no failures, limit 5\<close>
  "init_tool m with_agent =
     \<lparr>manager = m, agent_present = with_agent, ros_node = False, validation_count = 0,
      success_count = 0, consecutive_failures = 0, max_consecutive_failures = 5,
      init_raw_data = None, init_scene_graph_data = None, trigger_received = False,
      published = []\<rparr>"

record payload =
  status :: string
  p_is_valid :: "bool option"
  p_error_reason :: "string option"
  p_message :: "string option"
  p_validation_details :: "(string \<times> bool) list"
  p_consecutive_failures :: "nat option"
  p_current_scene_graph :: "scene_graph option"
  p_scene_graph :: "scene_graph option"
  p_edges_added :: "string set"
  p_edges_removed :: "string set"

definition pop :: "bus_event list \<Rightarrow> bus_event \<times> bus_event list" where
  "pop es = (case es of [] \<Rightarrow> (Quiet, []) | e # r \<Rightarrow> (e, r))"

definition deliver :: "bus_event \<Rightarrow> tool \<Rightarrow> tool" where
  \<comment> \<open>the subscriber callbacks: \<open>_ros2_callback\<close> passes on dictionaries that have both
      \<open>nodes\<close> and \<open>edges\<close>; \<open>_agent_trigger_callback\<close> reacts to \<open>true\<close> only\<close>
  "deliver e t =
     (case e of
        SceneUpdate g raw \<Rightarrow>
          if sg_nodes g = None \<or> sg_edges g = None then t
          else t\<lparr>manager := update_scene_graph (\<lambda>x. None) (RawDict g) (Some raw) (manager t)\<rparr>
      | Trigger b \<Rightarrow> if ros_node t \<and> b then t\<lparr>trigger_received := True\<rparr> else t
      | _ \<Rightarrow> t)"

definition agent_spin_once :: "env \<Rightarrow> tool \<Rightarrow> bus_event list \<Rightarrow> tool \<times> bus_event list" where
  \<comment> \<open>\<open>agent.spin_once()\<close>: a failure of the pump is caught inside \<open>ROSManager.spin_once\<close>\<close>
  "agent_spin_once ev t es =
     (if ros_up ev then (case pop es of (e, r) \<Rightarrow> (deliver e t, r)) else (t, es))"

definition node_spin_once :: "tool \<Rightarrow> bus_event list \<Rightarrow> string + tool \<times> bus_event list" where
  \<comment> \<open>\<open>rclpy.spin_once(self._ros_node)\<close> on the node the tool creates for itself: a failure of
      the pump is raised.  That node subscribes to \<open>/agent_trigger\<close> only, so a scene update
      on the bus does not reach the store through this pump\<close>
  "node_spin_once t es =
     (case pop es of (e, r) \<Rightarrow>
        (case e of
           SpinError m \<Rightarrow> Inl m
         | Trigger b \<Rightarrow> Inr (deliver e t, r)
         | _ \<Rightarrow> Inr (t, r)))"

fun force_refresh :: "nat \<Rightarrow> nat \<Rightarrow> env \<Rightarrow> tool \<Rightarrow> bus_event list \<Rightarrow> tool \<times> bus_event list" where
  \<comment> \<open>loop of \<open>force_refresh_from_ros\<close>: pump until a new snapshot has been parsed\<close>
  "force_refresh 0 old ev t es = (t, es)"
| "force_refresh (Suc n) old ev t es =
     (case agent_spin_once ev t es of (t1, es1) \<Rightarrow>
        if parse_success_count (manager t1) > old then (t1, es1)
        else force_refresh n old ev t1 es1)"

definition smart_refresh_scene_graph :: "env \<Rightarrow> tool \<Rightarrow> bus_event list \<Rightarrow> tool \<times> bus_event list" where
  "smart_refresh_scene_graph ev t es =
     (if agent_present t then force_refresh 10 (parse_success_count (manager t)) ev t es
      else (t, es))"

definition initialize_ros_components_for_publishing :: "env \<Rightarrow> tool \<Rightarrow> tool" where
  \<comment> \<open>creates the publishers and the trigger subscription when ROS is up\<close>
  "initialize_ros_components_for_publishing ev t = (if ros_up ev then t\<lparr>ros_node := True\<rparr> else t)"

definition liti :: "string \<Rightarrow> string \<Rightarrow> string option" where
  \<comment> \<open>a lower-case literal matched with \<open>re.IGNORECASE\<close>\<close>
  "liti p s = (if py_lower (take (length p) s) = p then Some (drop (length p) s) else None)"

definition rest_of_line :: "string \<Rightarrow> string option" where
  \<comment> \<open>\<open>\\s*(.+)$\<close> on stripped text: what follows the white space, non-empty and
      without a line break\<close>
  "rest_of_line s =
     (let rest = ws0 s in if rest \<noteq> [] \<and> CHR 0x0A \<notin> set rest then Some rest else None)"

definition extract_core_action :: "string \<Rightarrow> string" where
  "extract_core_action action =
     (let s = py_strip action in
      case do { r1 \<leftarrow> liti ''action'' s; r2 \<leftarrow> ws1 r1; r3 \<leftarrow> liti ''type'' r2; r4 \<leftarrow> ws1 r3;
                r5 \<leftarrow> digits1 r4; r6 \<leftarrow> lit '':'' (ws0 r5); rest_of_line r6 } of
        Some core \<Rightarrow> py_strip core
      | None \<Rightarrow>
         (case do { r1 \<leftarrow> liti ''step'' s; r2 \<leftarrow> ws1 r1; r3 \<leftarrow> digits1 r2;
                    r4 \<leftarrow> lit '':'' (ws0 r3); rest_of_line r4 } of
            Some core \<Rightarrow> py_strip core
          | None \<Rightarrow> s))"

definition ensure_publisher :: "env \<Rightarrow> tool \<Rightarrow> tool" where
  \<comment> \<open>a missing publisher is created on the agent's node when there is an agent and ROS
      is up\<close>
  "ensure_publisher ev t =
     (if ros_node t then t
      else if ros_up ev \<and> agent_present t then initialize_ros_components_for_publishing ev t
      else t)"

definition publish_action_cmd :: "env \<Rightarrow> string \<Rightarrow> tool \<Rightarrow> tool" where
  "publish_action_cmd ev action t =
     (let t1 = ensure_publisher ev t
      in if ros_node t1
         then t1\<lparr>published := published t1 @ [(''/instruction'', extract_core_action action)]\<rparr>
         else t1)"

definition publish_init_raw_msg :: "env \<Rightarrow> tool \<Rightarrow> tool" where
  "publish_init_raw_msg ev t =
     (case init_raw_data t of
        None \<Rightarrow> t
      | Some json_str \<Rightarrow>
          (let t1 = ensure_publisher ev t
           in if ros_node t1
              then t1\<lparr>published := published t1 @ [(''/scene_graph_init'', json_str)]\<rparr>
              else t1))"

definition base_payload :: "string \<Rightarrow> payload" where
  \<comment> \<open>a response dictionary with the given status and no other key\<close>
  "base_payload st =
     \<lparr>status = st, p_is_valid = None, p_error_reason = None, p_message = None,
      p_validation_details = [], p_consecutive_failures = None,
      p_current_scene_graph = None, p_scene_graph = None,
      p_edges_added = {}, p_edges_removed = {}\<rparr>"

definition format_success_response :: "scene_graph \<Rightarrow> scene_graph \<Rightarrow> string \<Rightarrow> payload" where
  \<comment> \<open>with the edge-level difference of \<open>_analyze_scene_changes\<close>\<close>
  "format_success_response initial_scene_graph final_scene_graph intended_action =
     (base_payload ''execution_success'')
       \<lparr>p_message := Some ''Action validated and executed successfully. Environment updated and scene graph stabilized.'',
        p_scene_graph := Some final_scene_graph,
        p_edges_added := set (get_edges final_scene_graph) - set (get_edges initial_scene_graph),
        p_edges_removed := set (get_edges initial_scene_graph) - set (get_edges final_scene_graph)\<rparr>"

definition format_timeout_response :: "tool \<Rightarrow> payload" where
  "format_timeout_response t =
     (base_payload ''execution_timeout'')
       \<lparr>p_message := Some ''Timed out waiting for /agent_trigger signal (value=true)'',
        p_current_scene_graph := Some (get_current_scene_graph (manager t))\<rparr>"

definition format_error_response :: "string \<Rightarrow> tool \<Rightarrow> payload" where
  "format_error_response error_msg t =
     (base_payload ''execution_error'')
       \<lparr>p_message := Some (''Error during action execution: '' @ error_msg),
        p_current_scene_graph := Some (get_current_scene_graph (manager t))\<rparr>"

datatype wait_outcome =
    Signalled tool "bus_event list"
  | TimedOut tool "bus_event list"
  | Raised string tool "bus_event list"

fun wait_loop :: "nat \<Rightarrow> env \<Rightarrow> tool \<Rightarrow> bus_event list \<Rightarrow> wait_outcome" where
  \<comment> \<open>the polling loop of \<open>_execute_action\<close>: pump the bus, then look at the trigger flag\<close>
  "wait_loop 0 ev t es = TimedOut t es"
| "wait_loop (Suc n) ev t es =
     (case (if agent_present t then Inr (agent_spin_once ev t es)
            else if ros_node t then node_spin_once t es
            else Inr (t, es)) of
        Inl m \<Rightarrow> Raised m t (snd (pop es))
      | Inr (t1, es1) \<Rightarrow>
          if trigger_received t1 then Signalled t1 es1 else wait_loop n ev t1 es1)"

definition fetch_scene :: "tool \<Rightarrow> tool" where
  \<comment> \<open>\<open>self.init_raw_data, self.init_scene_graph_data = manager.get_current_raw_msg()\<close>\<close>
  "fetch_scene t =
     (case get_current_raw_msg (manager t) of
        (raw, g) \<Rightarrow> t\<lparr>init_raw_data := raw, init_scene_graph_data := Some g\<rparr>)"

definition execute_action ::
  "env \<Rightarrow> string \<Rightarrow> scene_graph \<Rightarrow> tool \<Rightarrow> bus_event list \<Rightarrow> payload \<times> tool \<times> bus_event list" where
  \<comment> \<open>publish, wait for the trigger, settle and take the new snapshot; the \<open>except\<close> branch
      turns a raised error into a response and \<open>finally\<close> clears the trigger flag\<close>
  "execute_action ev query initial_scene_graph_data t es =
     (let t1 = publish_action_cmd ev query t;
          t2 = publish_init_raw_msg ev t1;
          t3 = (if \<not> ros_node t2 \<and> ros_up ev
                then initialize_ros_components_for_publishing ev t2 else t2);
          t4 = t3\<lparr>trigger_received := False\<rparr>
      in case wait_loop (max_polls ev) ev t4 es of
           Signalled t5 es5 \<Rightarrow>
             (case (if agent_present t5 then agent_spin_once ev t5 es5 else (t5, es5)) of
                (t6, es6) \<Rightarrow>
                  (case smart_refresh_scene_graph ev t6 es6 of
                     (t7, es7) \<Rightarrow>
                       (let t8 = fetch_scene t7
                        in (format_success_response initial_scene_graph_data
                              (current_scene_graph (manager t7)) query,
                            t8\<lparr>trigger_received := False\<rparr>, es7))))
         | TimedOut t5 es5 \<Rightarrow>
             (format_timeout_response t5, t5\<lparr>trigger_received := False\<rparr>, es5)
         | Raised m t5 es5 \<Rightarrow>
             (format_error_response m t5, t5\<lparr>trigger_received := False\<rparr>, es5))"

definition validate_without_scene :: "string \<Rightarrow> validation_result" where
  \<comment> \<open>\<open>_validate_action_command(command, None)\<close>, the scene graph never fetched: the
      analysis fails on \<open>None\<close> inside its own \<open>try\<close> and yields the empty analysis, so no
      source object is found; the open/close validation raises on \<open>None.get\<close> and its
      \<open>except\<close> branch reports the error\<close>
  "validate_without_scene command =
     (case parse_flexible_action_command command of
        None \<Rightarrow>
          invalid (''Cannot parse action: '' @ command)
            [(''objects_exist'', False), (''source_movable'', False),
             (''target_accessible'', False), (''action_valid'', False)]
      | Some (OpenCloseAction action_type target) \<Rightarrow>
          invalid (''Validation error: '' @ sq @ ''NoneType'' @ sq @ '' object has no attribute ''
                   @ sq @ ''get'' @ sq)
            [(''object_exists'', False), (''state_valid'', False), (''action_valid'', False)]
      | Some (MoveAction source target rel) \<Rightarrow>
          invalid (''Source object '' @ sq @ source @ sq @ '' not found in scene'')
            [(''objects_exist'', False), (''source_movable'', False),
             (''target_accessible'', False), (''action_valid'', False)])"

definition all_false_details :: "(string \<times> bool) list" where
  "all_false_details =
     [(''format_valid'', False), (''boxes_exist'', False), (''boxes_movable'', False),
      (''space_available'', False), (''type_consistent'', False)]"

definition task_failed_response :: "tool \<Rightarrow> payload" where
  "task_failed_response t =
     (base_payload ''task_failed'')
       \<lparr>p_is_valid := Some False,
        p_error_reason := Some (''Task terminated due to consecutive validation failures (''
           @ str_of_nat (max_consecutive_failures t)
           @ '' times). The task appears to be impossible to complete.''),
        p_validation_details := all_false_details,
        p_consecutive_failures := Some (max_consecutive_failures t),
        p_current_scene_graph := init_scene_graph_data t\<rparr>"

definition no_command_response :: "tool \<Rightarrow> payload" where
  "no_command_response t =
     (base_payload ''validation_failed'')
       \<lparr>p_is_valid := Some False,
        p_error_reason := Some (''No action command provided. Please provide a valid action in format ''
           @ sq @ ''action type X: move boxY to boxZ'' @ sq @ '' or ''
           @ sq @ ''action type X: move boxY to table'' @ sq),
        p_validation_details := all_false_details,
        p_current_scene_graph := init_scene_graph_data t\<rparr>"

definition validation_failed_response ::
  "env \<Rightarrow> validation_result \<Rightarrow> tool \<Rightarrow> bus_event list \<Rightarrow> payload \<times> tool \<times> bus_event list" where
  \<comment> \<open>the failure branch of \<open>execute\<close>: count the failure, refresh the scene, answer with
      the validation result extended by status, scene graph and failure count\<close>
  "validation_failed_response ev validation_result t es =
     (let t1 = t\<lparr>consecutive_failures := consecutive_failures t + 1\<rparr>
      in case (if agent_present t1 then agent_spin_once ev t1 es else (t1, es)) of
           (t2, es2) \<Rightarrow>
             (case smart_refresh_scene_graph ev t2 es2 of
                (t3, es3) \<Rightarrow>
                  (let t4 = fetch_scene t3
                   in ((base_payload ''validation_failed'')
                         \<lparr>p_is_valid := Some (is_valid validation_result),
                          p_error_reason := error_reason validation_result,
                          p_validation_details := validation_details validation_result,
                          p_consecutive_failures := Some (consecutive_failures t4),
                          p_current_scene_graph := init_scene_graph_data t4\<rparr>,
                       t4, es3))))"

definition prepare :: "tool \<Rightarrow> tool" where
  \<comment> \<open>count the call; the first call of a task fetches the scene graph\<close>
  "prepare t =
     (let t1 = t\<lparr>validation_count := validation_count t + 1\<rparr>
      in if validation_count t1 = 1 then fetch_scene t1 else t1)"

definition execute :: "env \<Rightarrow> string \<Rightarrow> tool \<Rightarrow> bus_event list \<Rightarrow> payload \<times> tool \<times> bus_event list" where
  "execute ev query t es =
     (if consecutive_failures t \<ge> max_consecutive_failures t then
        (let t1 = t\<lparr>validation_count := validation_count t + 1\<rparr>
         in (task_failed_response t1, t1\<lparr>consecutive_failures := 0\<rparr>, es))
      else
        (let t2 = prepare t in
         if py_strip query = [] then (no_command_response t2, t2, es)
         else
           (case init_scene_graph_data t2 of
              None \<Rightarrow> validation_failed_response ev (validate_without_scene query) t2 es
            | Some g \<Rightarrow>
                (let validation_result = validate_action_command query g
                 in if \<not> is_valid validation_result then
                      validation_failed_response ev validation_result t2 es
                    else
                      execute_action ev query g
                        (t2\<lparr>success_count := success_count t2 + 1, consecutive_failures := 0\<rparr>)
                        es))))"

section \<open>Conditions on a call of the tool\<close>

definition validated :: "tool \<Rightarrow> string \<Rightarrow> scene_graph \<Rightarrow> bool" where
  \<comment> \<open>the call reaches the execution phase: the failure limit is not reached, the command
      is not blank, and it passes validation against the scene graph \<open>g\<close> in use\<close>
  "validated t query g =
     (consecutive_failures t < max_consecutive_failures t \<and> py_strip query \<noteq> [] \<and>
      init_scene_graph_data (prepare t) = Some g \<and> is_valid (validate_action_command query g))"

definition is_spin_error :: "bus_event \<Rightarrow> bool" where
  "is_spin_error e = (case e of SpinError m \<Rightarrow> True | _ \<Rightarrow> False)"

definition quiet_for :: "nat \<Rightarrow> bool \<Rightarrow> bus_event list \<Rightarrow> bool" where
  \<comment> \<open>no completion signal among the events the first \<open>n\<close> polls can see, and no pump
      error among them unless the agent's guarded pump is in use\<close>
  "quiet_for n with_agent es =
     ((\<forall>e \<in> set (take n es). e \<noteq> Trigger True) \<and>
      (with_agent \<or> (\<forall>e \<in> set (take n es). \<not> is_spin_error e)))"

section \<open>The orchestration layer\<close>

text \<open>
  The agent (\<open>LangGraphAgent\<close>) owns the repetition state, the execution records and the
  tool.  The arguments of a tool call are the dictionary \<open>{"query": ...}\<close>.  Three library
  functions are parameters of the model: \<open>json.dumps\<close> of a scene graph, \<open>str\<close> of the
  argument dictionary, and the JSON decoder behind \<open>json.loads\<close>.
\<close>

datatype tool_args = ToolArgs (arg_query: "string option")

record repetition_state =
  last_call_message :: "tool_args option"
  last_last_call_message :: "tool_args option"
  same_tool_count :: nat

definition empty_repetition :: repetition_state where
  "empty_repetition =
     \<lparr>last_call_message = None, last_last_call_message = None, same_tool_count = 0\<rparr>"

datatype guard_verdict = Oscillation | Repeated | Proceed

definition repetition_guard :: "tool_args \<Rightarrow> repetition_state \<Rightarrow> guard_verdict \<times> repetition_state" where
  \<comment> \<open>the checks at the head of \<open>_call_validate_execute\<close>, made before the tool is called\<close>
  "repetition_guard tool_args r =
     (if last_last_call_message r \<noteq> None \<and> Some tool_args = last_last_call_message r then
        (Oscillation,
         r\<lparr>same_tool_count := 0, last_call_message := None, last_last_call_message := None\<rparr>)
      else if last_call_message r \<noteq> None \<and> Some tool_args = last_call_message r then
        (let r1 = r\<lparr>same_tool_count := same_tool_count r + 1\<rparr>
         in if same_tool_count r1 \<ge> 5
            then (Repeated, r1\<lparr>same_tool_count := 0, last_call_message := None\<rparr>)
            else (Proceed, r1))
      else
        (Proceed,
         r\<lparr>same_tool_count := 0, last_last_call_message := last_call_message r,
           last_call_message := Some tool_args\<rparr>))"

record tool_call =
  tc_name :: string
  tc_args :: tool_args
  tc_id :: string

datatype msg_kind = HumanMessage | AIMessage | ToolMessage | SystemMessage

record message =
  kind :: msg_kind
  content :: string
  msg_name :: "string option"
  tool_calls :: "tool_call list"

record execution_record =
  rec_type :: string
  rec_tools_called :: "string list"
  rec_task_failed :: bool
  rec_task_failed_reason :: "string option"
  rec_action_invalid :: bool
  rec_invalid_reason :: "string option"

datatype json_outcome = DecodeError | NonDict | DictStatus "string option"

record lib =
  json_dumps :: "scene_graph \<Rightarrow> string"
  dict_repr :: "tool_args \<Rightarrow> string"
  json_decode :: "string \<Rightarrow> json_outcome"

record agent =
  rep :: repetition_state
  execution_records :: "execution_record list"
  agent_tool :: tool

definition nl :: string where
  "nl = [CHR 0x0A]"

definition dq :: string where
  \<comment> \<open>the double-quote character\<close>
  "dq = [CHR 0x22]"

definition json_loads_status :: "lib \<Rightarrow> string \<Rightarrow> json_outcome" where
  \<comment> \<open>\<open>json.loads(content)\<close> followed by \<open>.get("status", "")\<close>.  After leading JSON white
      space a JSON text starts with a quote, a bracket, a brace, a minus sign, a digit or the
      first letter of \<open>true\<close>, \<open>false\<close>, \<open>null\<close>, \<open>NaN\<close>, \<open>Infinity\<close>; any other text is a
      decoding error.  What the decoder makes of the remaining texts is left to the
      parameter.\<close>
  "json_loads_status l s =
     (case dropWhile (\<lambda>c. c \<in> set [CHR '' '', CHR 0x09, CHR 0x0A, CHR 0x0D]) s of
        [] \<Rightarrow> DecodeError
      | c # cs \<Rightarrow>
          if c \<in> set (dq @ ''{[-0123456789tfnNI'') then json_decode l s else DecodeError)"

definition pick_scene_graph :: "payload \<Rightarrow> scene_graph option" where
  \<comment> \<open>\<open>result.get("current_scene_graph") or result.get("scene_graph")\<close>\<close>
  "pick_scene_graph p =
     (case p_current_scene_graph p of
        Some g \<Rightarrow> if truthy g then Some g else p_scene_graph p
      | None \<Rightarrow> p_scene_graph p)"

definition feedback_prefix :: "payload \<Rightarrow> string \<Rightarrow> string" where
  "feedback_prefix p action_query =
     (if status p = ''execution_success'' then
        ''The previous action '' @ sq @ action_query @ sq @ '' was executed successfully.''
      else if status p = ''validation_failed'' then
        ''The action '' @ sq @ action_query @ sq @ '' is invalid, reason: ''
          @ (case p_error_reason p of Some e \<Rightarrow> e | None \<Rightarrow> ''Unknown validation error'')
      else if status p = ''task_failed'' then
        ''The action '' @ sq @ action_query @ sq @ '' failed, reason: ''
          @ (case p_error_reason p of Some e \<Rightarrow> e | None \<Rightarrow> ''Task failed'')
      else if status p = ''execution_timeout'' then
        ''The action '' @ sq @ action_query @ sq @ '' timed out waiting for completion signal.''
      else if status p = ''execution_error'' then
        ''The action '' @ sq @ action_query @ sq @ '' encountered an error: ''
          @ (case p_message p of Some m \<Rightarrow> m | None \<Rightarrow> ''Unknown execution error'')
      else
        (case p_message p of
           Some m \<Rightarrow> if m \<noteq> [] then ''Action '' @ sq @ action_query @ sq @ '' result: '' @ m
                     else ''Action '' @ sq @ action_query @ sq @ '' completed with status: '' @ status p
         | None \<Rightarrow> ''Action '' @ sq @ action_query @ sq @ '' completed with status: '' @ status p))"

definition build_action_feedback_message :: "lib \<Rightarrow> store \<Rightarrow> payload \<Rightarrow> tool_args \<Rightarrow> string" where
  "build_action_feedback_message l m p tool_args =
     (let action_query = (case arg_query tool_args of Some q \<Rightarrow> q | None \<Rightarrow> []);
          prefix = feedback_prefix p action_query
      in case pick_scene_graph p of
           Some g \<Rightarrow>
             if truthy g then prefix @ nl @ nl @ ''Current scene graph:'' @ nl @ json_dumps l g
             else if truthy (get_current_scene_graph m)
               then prefix @ nl @ nl @ ''Current scene graph:'' @ nl
                    @ json_dumps l (get_current_scene_graph m)
               else prefix @ nl @ nl @ ''(Scene graph not available)''
         | None \<Rightarrow>
             if truthy (get_current_scene_graph m)
               then prefix @ nl @ nl @ ''Current scene graph:'' @ nl
                    @ json_dumps l (get_current_scene_graph m)
               else prefix @ nl @ nl @ ''(Scene graph not available)'')"

definition guard_record :: "string \<Rightarrow> execution_record" where
  \<comment> \<open>the record written when the guard rejects a call (it has no \<open>task_failed\<close> key)\<close>
  "guard_record reason =
     \<lparr>rec_type = ''call_validate_execute'', rec_tools_called = [''ValidateAndExecuteAction''],
      rec_task_failed = False, rec_task_failed_reason = None,
      rec_action_invalid = True, rec_invalid_reason = Some reason\<rparr>"

definition plain_message :: "string \<Rightarrow> message" where
  \<comment> \<open>a bare string in the node's result becomes a human message of the state\<close>
  "plain_message text =
     \<lparr>kind = HumanMessage, content = text, msg_name = None, tool_calls = []\<rparr>"

definition call_validate_execute ::
  "lib \<Rightarrow> env \<Rightarrow> message \<Rightarrow> agent \<Rightarrow> bus_event list
   \<Rightarrow> message list \<times> agent \<times> bus_event list" where
  \<comment> \<open>the node \<open>validate_execute\<close>; of the state it reads the last message only, which is
      the argument \<open>last_message\<close>.  The result: the messages the node adds to the state,
      the agent and the rest of the bus events\<close>
  "call_validate_execute l ev last_message a es =
     (case tool_calls last_message of
        [] \<Rightarrow>
          ([], a\<lparr>execution_records := execution_records a @
                   [\<lparr>rec_type = ''call_validate_execute'', rec_tools_called = [],
                     rec_task_failed = False, rec_task_failed_reason = None,
                     rec_action_invalid = False, rec_invalid_reason = None\<rparr>]\<rparr>, es)
      | call # others \<Rightarrow>
          (case repetition_guard (tc_args call) (rep a) of
             (Oscillation, r1) \<Rightarrow>
               (let reason = ''The action '' @ dq @ dict_repr l (tc_args call) @ dq
                             @ '' is the same as the one before last.''
                in ([plain_message (''invalid, reason: '' @ reason)],
                    a\<lparr>rep := r1, execution_records := execution_records a @ [guard_record reason]\<rparr>,
                    es))
           | (Repeated, r1) \<Rightarrow>
               (let reason = ''The action '' @ dq @ dict_repr l (tc_args call) @ dq
                             @ '' was repeated.''
                in ([plain_message (''invalid, reason: '' @ reason)],
                    a\<lparr>rep := r1, execution_records := execution_records a @ [guard_record reason]\<rparr>,
                    es))
           | (Proceed, r1) \<Rightarrow>
               if tc_name call = ''ValidateAndExecuteAction'' then
                 (case execute ev (case arg_query (tc_args call) of Some q \<Rightarrow> q | None \<Rightarrow> [])
                         (agent_tool a) es of
                    (result, t1, es1) \<Rightarrow>
                      (let task_failed = (status result = ''task_failed'');
                           record = \<lparr>rec_type = ''call_validate_execute'',
                                     rec_tools_called = [''ValidateAndExecuteAction''],
                                     rec_task_failed = task_failed,
                                     rec_task_failed_reason =
                                       (if task_failed
                                        then Some (case p_error_reason result of
                                                     Some e \<Rightarrow> e | None \<Rightarrow> ''Unknown error'')
                                        else None),
                                     rec_action_invalid = False, rec_invalid_reason = None\<rparr>;
                           tool_message =
                             \<lparr>kind = ToolMessage,
                              content = build_action_feedback_message l (manager t1) result
                                          (tc_args call),
                              msg_name = Some ''ValidateAndExecuteAction'',
                              tool_calls = []\<rparr>;
                           continue_message =
                             \<lparr>kind = SystemMessage,
                              content = ''If the user goal is not completed, please continue planning.'',
                              msg_name = None, tool_calls = []\<rparr>
                       in (if task_failed then [tool_message, continue_message] else [tool_message],
                           a\<lparr>rep := r1, agent_tool := t1,
                             execution_records := execution_records a @ [record]\<rparr>,
                           es1)))
               else
                 ([], a\<lparr>rep := r1,
                         execution_records := execution_records a @
                           [\<lparr>rec_type = ''call_validate_execute'', rec_tools_called = [],
                             rec_task_failed = False, rec_task_failed_reason = None,
                             rec_action_invalid = False, rec_invalid_reason = None\<rparr>]\<rparr>, es)))"

datatype route = Continue | End

fun last_tool_message :: "message list \<Rightarrow> message option" where
  \<comment> \<open>the latest message named \<open>ValidateAndExecuteAction\<close>; the argument is the history
      in reverse\<close>
  "last_tool_message [] = None"
| "last_tool_message (m # ms) =
     (if msg_name m = Some ''ValidateAndExecuteAction'' then Some m else last_tool_message ms)"

definition records_say_failed :: "agent \<Rightarrow> bool" where
  \<comment> \<open>the last execution record is one of this node and is marked as a task failure\<close>
  "records_say_failed a =
     (execution_records a \<noteq> [] \<and>
      rec_type (last (execution_records a)) = ''call_validate_execute'' \<and>
      rec_task_failed (last (execution_records a)))"

definition should_continue_after_execution :: "lib \<Rightarrow> message list \<Rightarrow> agent \<Rightarrow> string + route" where
  \<comment> \<open>the condition after the node; the state has the single key \<open>messages\<close>, so its
      \<open>task_failed\<close> flag is never set.  A content that decodes to something other than a
      dictionary makes \<open>.get\<close> raise, which this function does not catch.\<close>
  "should_continue_after_execution l messages a =
     (if \<exists>m \<in> set messages. startswith (content m) ''TASK_FAILED:'' then Inr End
      else
        (let by_records = (if records_say_failed a then Inr End else Inr Continue)
         in case last_tool_message (rev messages) of
              None \<Rightarrow> by_records
            | Some m \<Rightarrow>
                (case json_loads_status l (content m) of
                   DictStatus st \<Rightarrow>
                     if st = Some ''validation_failed'' then Inr End
                     else if st = Some ''task_failed'' then Inr End
                     else by_records
                 | NonDict \<Rightarrow> Inl ''AttributeError''
                 | DecodeError \<Rightarrow>
                     if startswith (content m) (''The action '' @ sq)
                        \<and> py_in ''is invalid, reason:'' (content m)
                     then Inr End else by_records)))"


section \<open>A tool constructed without a scene-graph manager\<close>

text \<open>
  The constructor accepts \<open>scene_graph_manager = None\<close>, and \<open>execute\<close> has a guard for
  that case: inside a \<open>try\<close> it tests \<open>if not self.scene_graph_manager\<close> and answers with a
  \<open>validation_failed\<close> response.  Without a manager there is no store, no scene graph is
  ever fetched and no command is validated, so of the tool's state only the counters are
  read.  The result of \<open>execute\<close> is either the response or, as the left summand, the
  message of an exception that leaves the method.  \<open>BaseTool.__call__\<close>, through which the
  agent reaches the tool, catches such an exception and returns a plain text instead.
\<close>

record unmanaged_tool =
  u_validation_count :: nat
  u_consecutive_failures :: nat
  u_max_consecutive_failures :: nat

definition init_unmanaged_tool :: unmanaged_tool where
  \<comment> \<open>\<open>__init__\<close> with \<open>scene_graph_manager = None\<close>\<close>
  "init_unmanaged_tool =
     \<lparr>u_validation_count = 0, u_consecutive_failures = 0, u_max_consecutive_failures = 5\<rparr>"

definition none_has_no_attribute :: "string \<Rightarrow> string" where
  \<comment> \<open>\<open>str(e)\<close> of the \<open>AttributeError\<close> raised by \<open>None.name\<close>\<close>
  "none_has_no_attribute name =
     sq @ ''NoneType'' @ sq @ '' object has no attribute '' @ sq @ name @ sq"

definition manager_unavailable_response :: payload where
  \<comment> \<open>the answer of the guard; its \<open>validation_details\<close> are the empty dictionary and its
      \<open>current_scene_graph\<close> is \<open>None\<close>\<close>
  "manager_unavailable_response =
     (base_payload ''validation_failed'')
       \<lparr>p_is_valid := Some False,
        p_error_reason := Some ''Scene graph manager not available. Cannot retrieve current scene state for validation.''\<rparr>"

definition execute_unmanaged ::
  "string \<Rightarrow> unmanaged_tool \<Rightarrow> (string + payload) \<times> unmanaged_tool" where
  \<comment> \<open>\<open>execute\<close> when \<open>self.scene_graph_manager\<close> is \<open>None\<close>: the call is counted, the
      failure limit is tested, the first call fetches the scene graph from the manager
      (outside every \<open>try\<close>), then come the test for a blank command and the guard\<close>
  "execute_unmanaged query t =
     (let t1 = t\<lparr>u_validation_count := u_validation_count t + 1\<rparr>
      in if u_consecutive_failures t1 \<ge> u_max_consecutive_failures t1 then
           (Inr ((base_payload ''task_failed'')
                   \<lparr>p_is_valid := Some False,
                    p_error_reason := Some (''Task terminated due to consecutive validation failures (''
                       @ str_of_nat (u_max_consecutive_failures t1)
                       @ '' times). The task appears to be impossible to complete.''),
                    p_validation_details := all_false_details,
                    p_consecutive_failures := Some (u_max_consecutive_failures t1)\<rparr>),
            t1\<lparr>u_consecutive_failures := 0\<rparr>)
         else if u_validation_count t1 = 1 then
           (Inl (none_has_no_attribute ''get_current_raw_msg''), t1)
         else if py_strip query = [] then
           (Inr ((base_payload ''validation_failed'')
                   \<lparr>p_is_valid := Some False,
                    p_error_reason := Some (''No action command provided. Please provide a valid action in format ''
                       @ sq @ ''action type X: move boxY to boxZ'' @ sq @ '' or ''
                       @ sq @ ''action type X: move boxY to table'' @ sq),
                    p_validation_details := all_false_details\<rparr>),
            t1)
         else (Inr manager_unavailable_response, t1))"

datatype tool_reply = Structured payload | FailureText string

definition base_tool_call :: "string + payload \<Rightarrow> tool_reply" where
  \<comment> \<open>\<open>BaseTool.__call__\<close> around \<open>execute\<close>: its \<open>except\<close> branch turns an exception into
      the text \<open>Tool execution failed: ...\<close>, which has no status and no reason field\<close>
  "base_tool_call r =
     (case r of
        Inl e \<Rightarrow> FailureText (''Tool execution failed: '' @ e)
      | Inr p \<Rightarrow> Structured p)"

section \<open>Concrete scenes\<close>

definition scene_three_cubes :: scene_graph where
  \<comment> \<open>\<open>red_box\<close> on the table holding three cubes, a fourth cube on the table\<close>
  "scene_three_cubes =
     \<lparr>sg_timestamp = Some 1,
      sg_nodes = Some [NodeStr ''table'', NodeStr ''red_box'', NodeStr ''red_cube1'',
                       NodeStr ''red_cube2'', NodeStr ''red_cube3'', NodeStr ''red_cube4''],
      sg_edges = Some [''red_box(on)table'', ''red_cube1(in)red_box'', ''red_cube2(in)red_box'',
                       ''red_cube3(in)red_box'', ''red_cube4(on)table'']\<rparr>"

definition scene_cube_in_box :: scene_graph where
  \<comment> \<open>the state after \<open>move red_cube1 in red_box\<close> has been carried out\<close>
  "scene_cube_in_box =
     \<lparr>sg_timestamp = Some 2,
      sg_nodes = Some [NodeStr ''table'', NodeStr ''red_box'', NodeStr ''red_cube1''],
      sg_edges = Some [''red_box(on)table'', ''red_cube1(in)red_box'']\<rparr>"





definition scene_high_drawer_open :: scene_graph where
  \<comment> \<open>the middle and the high drawer both open, a cube on the table\<close>
  "scene_high_drawer_open =
     \<lparr>sg_timestamp = Some 7,
      sg_nodes = Some [NodeStr ''table'', NodeStr ''short_cabinet/drawer_low(closed)'',
                       NodeStr ''short_cabinet/drawer_middle(open)'',
                       NodeStr ''short_cabinet/drawer_high(open)'', NodeStr ''red_cube1''],
      sg_edges = Some [''red_cube1(on)table'']\<rparr>"

definition feed :: "scene_graph list \<Rightarrow> store \<Rightarrow> store" where
  \<comment> \<open>the bus callback delivering the given snapshots, one after the other\<close>
  "feed gs s = foldl (\<lambda>st g. update_scene_graph (\<lambda>t. None) (RawDict g) None st) s gs"

definition waiting_store :: store where
  \<comment> \<open>a fresh store on which a caller has started to wait for an update\<close>
  "waiting_store = start_waiting_for_update empty_dict init_store"

definition scene_cube_on_table :: scene_graph where
  \<comment> \<open>two boxes and a cube on the table\<close>
  "scene_cube_on_table =
     \<lparr>sg_timestamp = Some 8,
      sg_nodes = Some [NodeStr ''table'', NodeStr ''red_box'', NodeStr ''blue_box'',
                       NodeStr ''red_cube1''],
      sg_edges = Some [''red_box(on)table'', ''blue_box(on)table'', ''red_cube1(on)table'']\<rparr>"

definition live_env :: env where
  \<comment> \<open>ROS up; four polls fit into the waiting time\<close>
  "live_env = \<lparr>ros_up = True, max_polls = 4\<rparr>"

definition store_with :: "scene_graph \<Rightarrow> store" where
  \<comment> \<open>the fresh store after the bus has delivered one snapshot\<close>
  "store_with g = update_scene_graph (\<lambda>t. None) (RawDict g) (Some ''raw'') init_store"

definition fresh_tool :: tool where
  \<comment> \<open>a new tool with an agent, its store holding \<open>scene_cube_on_table\<close>\<close>
  "fresh_tool = init_tool (store_with scene_cube_on_table) True"

fun run :: "env \<Rightarrow> string list \<Rightarrow> tool \<Rightarrow> tool" where
  \<comment> \<open>the tool after a series of calls of \<open>execute\<close> during which the bus stays silent\<close>
  "run ev [] t = t"
| "run ev (q # qs) t = run ev qs (fst (snd (execute ev q t [])))"


definition plain_lib :: lib where
  \<comment> \<open>stand-ins for the library functions, used to evaluate examples\<close>
  "plain_lib =
     \<lparr>json_dumps = (\<lambda>g. ''{}''),
      dict_repr = (\<lambda>x. case arg_query x of Some q \<Rightarrow> ''{query: '' @ q @ ''}'' | None \<Rightarrow> ''{}''),
      json_decode = (\<lambda>s. DecodeError)\<rparr>"

definition fresh_agent :: agent where
  \<comment> \<open>the agent at the start of a task\<close>
  "fresh_agent = \<lparr>rep = empty_repetition, execution_records = [], agent_tool = fresh_tool\<rparr>"

definition planner_message :: "string \<Rightarrow> message" where
  \<comment> \<open>a planner reply asking for the given action\<close>
  "planner_message q =
     \<lparr>kind = AIMessage, content = [], msg_name = None,
      tool_calls = [\<lparr>tc_name = ''ValidateAndExecuteAction'', tc_args = ToolArgs (Some q),
                     tc_id = ''call''\<rparr>]\<rparr>"

fun guard_run :: "tool_args list \<Rightarrow> repetition_state \<Rightarrow> guard_verdict list \<times> repetition_state" where
  \<comment> \<open>the verdicts of the guard on a series of calls\<close>
  "guard_run [] r = ([], r)"
| "guard_run (x # xs) r =
     (case repetition_guard x r of
        (v, r1) \<Rightarrow> (case guard_run xs r1 of (vs, r2) \<Rightarrow> (v # vs, r2)))"

fun rounds ::
  "lib \<Rightarrow> env \<Rightarrow> string list \<Rightarrow> message list \<times> agent \<times> (string + route) list
   \<Rightarrow> message list \<times> agent \<times> (string + route) list" where
  \<comment> \<open>planner requests answered by the node one after the other while the bus stays
      silent: the message history, the agent, and the routing decision after each round\<close>
  "rounds l ev [] s = s"
| "rounds l ev (q # qs) (msgs, a, routes) =
     (case call_validate_execute l ev (planner_message q) a [] of
        (outs, a1, es1) \<Rightarrow>
          rounds l ev qs
            (msgs @ [planner_message q] @ outs, a1,
             routes @ [should_continue_after_execution l (msgs @ [planner_message q] @ outs) a1]))"

definition cmd_a :: tool_args where
  "cmd_a = ToolArgs (Some ''move red_cube1 in red_box'')"

definition cmd_b :: tool_args where
  "cmd_b = ToolArgs (Some ''move red_cube1 in blue_box'')"

definition cmd_c :: tool_args where
  "cmd_c = ToolArgs (Some ''move red_cube1 on blue_box'')"

definition worn_out_agent :: agent where
  \<comment> \<open>an agent whose tool has seen five failed validations in a row\<close>
  "worn_out_agent =
     fresh_agent\<lparr>agent_tool := run live_env (replicate 5 ''move ghost on table'') fresh_tool\<rparr>"

section \<open>Verified properties\<close>

subsection \<open>Facts about the analysis\<close>


lemma scene_graph_data_analyze: "scene_graph_data (analyze_scene_graph g) = g"
  by (simp add: analyze_scene_graph_def Let_def split: prod.splits)

subsection \<open>Capacity of a container\<close>

text \<open>
  C1.  A container that already holds three cubes should refuse a fourth one with a
  capacity reason.  The validator counts the cubes in the target but compares the count
  with 10, while its own message reports the count out of 3: on \<open>scene_three_cubes\<close> the
  count is 3 and the move of the fourth cube is accepted.
\<close>

theorem capacity_fourth_cube_accepted:
  "cubes_in_target ''red_box'' (get_edges scene_three_cubes) = 3 \<and>
   is_valid (validate_action_command ''move red_cube4 in red_box'' scene_three_cubes)"
  by code_simp

text \<open>
  For a cube that has no placement edge and a target with nothing on it, the capacity
  check accepts exactly when fewer than ten cubes are in the target.
\<close>

lemma capacity_limit_is_ten:
  assumes "on_blockers_suffix target_box (sa_edges a) = []"
    and "cube_location cube_name (sa_edges a) = None"
  shows "fst (can_place_cube_in_box cube_name target_box a)
           = (cubes_in_target target_box (sa_edges a) < 10)"
  using assms by (simp add: can_place_cube_in_box_def Let_def)

subsection \<open>Idempotence\<close>







subsection \<open>Drawer ordering\<close>









text \<open>
  The ordering violation of the specification's example: with the high drawer open, a move
  into the middle drawer is rejected and the reason names the high drawer.
\<close>

lemma drawer_order_violation_example:
  "error_reason (validate_action_command ''move red_cube1 in short_cabinet/drawer_middle''
                   scene_high_drawer_open)
     = Some (''Cannot place on short_cabinet/drawer_middle: Cannot access short_cabinet/drawer_middle because short_cabinet/drawer_high is open. Please close short_cabinet/drawer_high first.'')"
  by code_simp

text \<open>
  When the middle and the high drawer both carry a state tag, the rule for the low drawer
  means that both are closed.
\<close>

lemma drawer_rule_tagged:
  assumes "drawer_rule ''short_cabinet/drawer_low'' a"
    and "get_object_state ''short_cabinet/drawer_middle'' a \<in> {Some ''open'', Some ''closed''}"
    and "get_object_state ''short_cabinet/drawer_high'' a \<in> {Some ''open'', Some ''closed''}"
  shows "get_object_state ''short_cabinet/drawer_middle'' a = Some ''closed'' \<and>
         get_object_state ''short_cabinet/drawer_high'' a = Some ''closed''"
  using assms by (auto simp add: drawer_rule_def)

subsection \<open>Stability tracking of the store\<close>

text \<open>
  C9.  While the store waits for an update, an incoming snapshot equal to the previous one
  (the last entry of the history, which always is the snapshot received last) increments
  the stable-frame counter, a differing snapshot sets the counter to 1, as does the first
  snapshot after waiting started; \<open>check_update_status\<close> reports the graph as stable
  exactly when the counter has reached the threshold, which is 5 by configuration.
\<close>

theorem stability_counter:
  assumes "waiting_for_update s" and "truthy g"
  shows "(scene_graph_history s \<noteq> [] \<and> last (scene_graph_history s) = g \<longrightarrow>
            stable_frame_count (update_scene_graph parse_text (RawDict g) msg s)
              = stable_frame_count s + 1) \<and>
         (scene_graph_history s \<noteq> [] \<and> last (scene_graph_history s) \<noteq> g \<longrightarrow>
            stable_frame_count (update_scene_graph parse_text (RawDict g) msg s) = 1) \<and>
         (scene_graph_history s = [] \<longrightarrow>
            stable_frame_count (update_scene_graph parse_text (RawDict g) msg s) = 1) \<and>
         scene_graph_history (update_scene_graph parse_text (RawDict g) msg s) \<noteq> [] \<and>
         last (scene_graph_history (update_scene_graph parse_text (RawDict g) msg s)) = g \<and>
         waiting_for_update (update_scene_graph parse_text (RawDict g) msg s) \<and>
         (is_stable (check_update_status s)
            \<longleftrightarrow> stable_frame_count s \<ge> stable_frame_threshold s) \<and>
         stable_frame_threshold (start_waiting_for_update ref init_store) = 5"
  using assms
  by (auto simp add: update_scene_graph_def check_stability_def check_update_status_def Let_def
        start_waiting_for_update_def init_store_def)

text \<open>
  A second identical snapshot raises the counter from 1 to 2, and a different one puts it
  back to 1.
\<close>

theorem stability_counter_witness:
  "stable_frame_count (feed [scene_three_cubes, scene_three_cubes] waiting_store) = 2 \<and>
   stable_frame_count (feed [scene_three_cubes, scene_cube_in_box] waiting_store) = 1"
proof -
  let ?s1 = "feed [scene_three_cubes] waiting_store"
  have w: "waiting_for_update ?s1" by code_simp
  have t1: "truthy scene_three_cubes" by code_simp
  have t2: "truthy scene_cube_in_box" by code_simp
  have h: "scene_graph_history ?s1 \<noteq> []" by code_simp
  have l1: "last (scene_graph_history ?s1) = scene_three_cubes" by code_simp
  have l2: "last (scene_graph_history ?s1) \<noteq> scene_cube_in_box" by code_simp
  have c: "stable_frame_count ?s1 = 1" by code_simp
  have "stable_frame_count (update_scene_graph (\<lambda>t. None) (RawDict scene_three_cubes) None ?s1) = 2"
    using stability_counter[OF w t1, of "\<lambda>t. None" None] h l1 c by simp
  moreover
  have "stable_frame_count (update_scene_graph (\<lambda>t. None) (RawDict scene_cube_in_box) None ?s1) = 1"
    using stability_counter[OF w t2, of "\<lambda>t. None" None] h l2 by simp
  ultimately show ?thesis by (simp add: feed_def)
qed

lemma stable_after_five_frames:
  "\<not> is_stable (check_update_status (feed (replicate 4 scene_three_cubes) waiting_store)) \<and>
   is_stable (check_update_status (feed (replicate 5 scene_three_cubes) waiting_store))"
  by code_simp

subsection \<open>Empty commands and the failure counter\<close>

text \<open>
  C10 (as amended).  An empty or whitespace-only command never increments the
  consecutive-failure counter.  While the counter is below its limit the call answers
  \<open>validation_failed\<close> and leaves the counter as it is; once the counter has reached the
  limit the call answers \<open>task_failed\<close>, whatever the command, and puts the counter back
  to zero.
\<close>

theorem empty_command_not_counted:
  assumes "py_strip query = []"
  shows "(consecutive_failures t < max_consecutive_failures t \<longrightarrow>
            status (fst (execute ev query t es)) = ''validation_failed'' \<and>
            consecutive_failures (fst (snd (execute ev query t es))) = consecutive_failures t) \<and>
         (consecutive_failures t \<ge> max_consecutive_failures t \<longrightarrow>
            status (fst (execute ev query t es)) = ''task_failed'' \<and>
            consecutive_failures (fst (snd (execute ev query t es))) = 0)"
  using assms
  by (simp add: execute_def Let_def prepare_def fetch_scene_def no_command_response_def
        task_failed_response_def base_payload_def split: prod.splits)

text \<open>A blank command to a fresh tool, and an empty one after five failed validations.\<close>

theorem empty_command_not_counted_witness:
  "status (fst (execute live_env ''   '' fresh_tool [])) = ''validation_failed'' \<and>
   consecutive_failures (fst (snd (execute live_env ''   '' fresh_tool []))) = 0 \<and>
   consecutive_failures
     (fst (snd (execute live_env []
                  (run live_env (replicate 5 ''move ghost on table'') fresh_tool) []))) = 0"
proof -
  have b: "py_strip ''   '' = []" by code_simp
  have e: "py_strip [] = []" by code_simp
  have c0: "consecutive_failures fresh_tool = 0" by code_simp
  have m0: "max_consecutive_failures fresh_tool = 5" by code_simp
  have c5: "consecutive_failures (run live_env (replicate 5 ''move ghost on table'') fresh_tool) = 5"
    by code_simp
  have m5: "max_consecutive_failures (run live_env (replicate 5 ''move ghost on table'') fresh_tool) = 5"
    by code_simp
  from empty_command_not_counted[OF b, of fresh_tool live_env "[]"] c0 m0
       empty_command_not_counted[OF e,
         of "run live_env (replicate 5 ''move ghost on table'') fresh_tool" live_env "[]"] c5 m5
  show ?thesis by simp
qed

text \<open>
  After five commands that fail validation, the empty command is answered with
  \<open>task_failed\<close>, not with \<open>validation_failed\<close>.
\<close>

theorem empty_command_task_failed_counterexample:
  "py_strip [] = [] \<and>
   consecutive_failures (run live_env (replicate 5 ''move ghost on table'') fresh_tool) = 5 \<and>
   status (fst (execute live_env []
                  (run live_env (replicate 5 ''move ghost on table'') fresh_tool) []))
     = ''task_failed''"
  by code_simp

subsection \<open>Waiting for the completion signal\<close>

lemma deliver_keeps:
  "agent_present (deliver e t) = agent_present t"
  "ros_node (deliver e t) = ros_node t"
  by (auto simp add: deliver_def split: bus_event.splits)

lemma deliver_trigger:
  "e \<noteq> Trigger True \<Longrightarrow> trigger_received (deliver e t) = trigger_received t"
  by (auto simp add: deliver_def split: bus_event.splits)

lemma quiet_for_same: "quiet_for (Suc n) a es \<Longrightarrow> quiet_for n a es"
  using set_take_subset_set_take[of n "Suc n" es]
  by (auto simp add: quiet_for_def)

lemma quiet_for_Cons:
  "quiet_for (Suc n) a (e # r) \<Longrightarrow>
   e \<noteq> Trigger True \<and> (a \<or> (\<forall>m. e \<noteq> SpinError m)) \<and> quiet_for n a r"
  by (auto simp add: quiet_for_def is_spin_error_def)

lemma quiet_for_Nil: "quiet_for n a []"
  by (simp add: quiet_for_def)

lemma pump_quiet:
  assumes "\<not> trigger_received t" and "quiet_for (Suc n) (agent_present t) es"
  shows "\<exists>t1 es1.
           (if agent_present t then Inr (agent_spin_once ev t es)
            else if ros_node t then node_spin_once t es
            else Inr (t, es)) = Inr (t1, es1) \<and>
           \<not> trigger_received t1 \<and> agent_present t1 = agent_present t \<and>
           quiet_for n (agent_present t) es1"
proof (cases es)
  case Nil
  then show ?thesis
    using assms(1) quiet_for_Nil
    by (auto simp add: agent_spin_once_def node_spin_once_def pop_def deliver_def)
next
  case (Cons e r)
  from quiet_for_Cons[OF assms(2)[unfolded Cons]]
  have e: "e \<noteq> Trigger True" and s: "agent_present t \<or> (\<forall>m. e \<noteq> SpinError m)"
    and q: "quiet_for n (agent_present t) r" by auto
  have tr: "\<not> trigger_received (deliver e t)"
    using deliver_trigger[OF e] assms(1) by simp
  show ?thesis
    using Cons tr q s assms quiet_for_same[OF assms(2)] deliver_keeps(1)[of e t]
    by (auto simp add: agent_spin_once_def node_spin_once_def pop_def split: bus_event.splits)
qed

lemma wait_loop_times_out:
  assumes "\<not> trigger_received t" and "quiet_for n (agent_present t) es"
  shows "\<exists>t' es'. wait_loop n ev t es = TimedOut t' es'"
  using assms
proof (induction n arbitrary: t es)
  case 0
  then show ?case by simp
next
  case (Suc n)
  from pump_quiet[OF Suc.prems, of ev] obtain t1 es1 where
    p: "(if agent_present t then Inr (agent_spin_once ev t es)
         else if ros_node t then node_spin_once t es
         else Inr (t, es)) = Inr (t1, es1)"
    and tr: "\<not> trigger_received t1" and a: "agent_present t1 = agent_present t"
    and q: "quiet_for n (agent_present t) es1" by blast
  have q1: "quiet_for n (agent_present t1) es1" using q a by simp
  from Suc.IH[OF tr q1] obtain t' es' where "wait_loop n ev t1 es1 = TimedOut t' es'" by blast
  then show ?case using p tr by simp
qed

lemma agent_present_publish:
  "agent_present (publish_action_cmd ev q t) = agent_present t"
  "agent_present (publish_init_raw_msg ev t) = agent_present t"
  "agent_present (initialize_ros_components_for_publishing ev t) = agent_present t"
  by (auto simp add: publish_action_cmd_def publish_init_raw_msg_def ensure_publisher_def
        initialize_ros_components_for_publishing_def Let_def split: option.splits)

lemma agent_present_prepare: "agent_present (prepare t) = agent_present t"
  by (simp add: prepare_def fetch_scene_def get_current_raw_msg_def Let_def)

lemma execute_action_timeout:
  assumes "quiet_for (max_polls ev) (agent_present t) es"
  shows "status (fst (execute_action ev query g t es)) = ''execution_timeout'' \<and>
         p_current_scene_graph (fst (execute_action ev query g t es))
           = Some (get_current_scene_graph (manager (fst (snd (execute_action ev query g t es)))))"
proof -
  let ?t2 = "publish_init_raw_msg ev (publish_action_cmd ev query t)"
  let ?t3 = "if \<not> ros_node ?t2 \<and> ros_up ev
             then initialize_ros_components_for_publishing ev ?t2 else ?t2"
  let ?t4 = "?t3\<lparr>trigger_received := False\<rparr>"
  have a: "agent_present ?t4 = agent_present t"
    by (simp add: agent_present_publish)
  have "\<exists>t' es'. wait_loop (max_polls ev) ev ?t4 es = TimedOut t' es'"
    by (rule wait_loop_times_out) (use assms a in simp_all)
  then obtain t' es' where w: "wait_loop (max_polls ev) ev ?t4 es = TimedOut t' es'" by blast
  show ?thesis
    using w by (simp add: execute_action_def Let_def format_timeout_response_def base_payload_def)
qed

lemma execute_validated:
  assumes "validated t query g"
  shows "execute ev query t es
           = execute_action ev query g
               ((prepare t)\<lparr>success_count := success_count (prepare t) + 1,
                            consecutive_failures := 0\<rparr>) es"
  using assms by (simp add: validated_def execute_def Let_def)

text \<open>
  C7.  When a validated command has been published and no completion signal arrives
  within the waiting time (and the pump raises no error), \<open>execute\<close> returns a response
  with status \<open>execution_timeout\<close>, and the scene graph in that response is the snapshot
  the store holds when the call returns.
\<close>

theorem timeout_returns_last_snapshot:
  assumes "validated t query g" and "quiet_for (max_polls ev) (agent_present t) es"
  shows "status (fst (execute ev query t es)) = ''execution_timeout'' \<and>
         p_current_scene_graph (fst (execute ev query t es))
           = Some (get_current_scene_graph (manager (fst (snd (execute ev query t es)))))"
  unfolding execute_validated[OF assms(1)]
  by (rule execute_action_timeout) (use assms(2) in \<open>simp add: agent_present_prepare\<close>)

text \<open>
  The bus delivers a new snapshot but no signal: the timeout response carries that
  snapshot.
\<close>

theorem timeout_returns_last_snapshot_witness:
  "status (fst (execute live_env ''move red_cube1 in red_box'' fresh_tool
                  [Quiet, SceneUpdate scene_three_cubes ''r''])) = ''execution_timeout'' \<and>
   p_current_scene_graph (fst (execute live_env ''move red_cube1 in red_box'' fresh_tool
                                 [Quiet, SceneUpdate scene_three_cubes ''r'']))
     = Some scene_three_cubes"
proof -
  have v: "validated fresh_tool ''move red_cube1 in red_box'' scene_cube_on_table"
    by code_simp
  have q: "quiet_for (max_polls live_env) (agent_present fresh_tool)
             [Quiet, SceneUpdate scene_three_cubes ''r'']"
    by code_simp
  have m: "get_current_scene_graph
             (manager (fst (snd (execute live_env ''move red_cube1 in red_box'' fresh_tool
                                   [Quiet, SceneUpdate scene_three_cubes ''r'']))))
             = scene_three_cubes"
    by code_simp
  from timeout_returns_last_snapshot[OF v q] m show ?thesis by simp
qed

subsection \<open>Every call returns a structured response\<close>








subsection \<open>The repetition guard\<close>

text \<open>
  C2 (as amended).  When two commands \<open>A\<close> and \<open>B\<close>, different from each other, have been
  passed on by the guard one after the other, a third command equal to \<open>A\<close> is rejected as
  an oscillation (the same as the one before last): the node answers with that reason
  without calling the tool, so the validity of the command plays no part, and the streak
  counter and both remembered commands are reset.
\<close>

theorem oscillation_rejected:
  assumes "A \<noteq> B"
    and "repetition_guard A r = (Proceed, r1)"
    and "repetition_guard B r1 = (Proceed, r2)"
  shows "repetition_guard A r2 = (Oscillation, empty_repetition) \<and>
         (\<forall>l ev m a es call others.
            rep a = r2 \<and> tool_calls m = call # others \<and> tc_args call = A \<longrightarrow>
            fst (call_validate_execute l ev m a es)
              = [plain_message (''invalid, reason: The action '' @ dq @ dict_repr l A @ dq
                                @ '' is the same as the one before last.'')] \<and>
            rep (fst (snd (call_validate_execute l ev m a es))) = empty_repetition \<and>
            agent_tool (fst (snd (call_validate_execute l ev m a es))) = agent_tool a \<and>
            snd (snd (call_validate_execute l ev m a es)) = es)"
proof -
  from assms(2) have l1: "last_call_message r1 = Some A"
    by (auto simp add: repetition_guard_def Let_def split: if_splits)
  from assms(3) l1 assms(1) have l2: "last_last_call_message r2 = Some A"
    by (auto simp add: repetition_guard_def Let_def split: if_splits)
  have g: "repetition_guard A r2 = (Oscillation, empty_repetition)"
    using l2 by (simp add: repetition_guard_def empty_repetition_def)
  show ?thesis
    using g by (auto simp add: call_validate_execute_def Let_def)
qed

text \<open>The series \<open>A\<close>, \<open>B\<close>, \<open>A\<close> at the start of a task.\<close>

theorem oscillation_rejected_witness:
  "fst (guard_run [cmd_a, cmd_b, cmd_a] empty_repetition) = [Proceed, Proceed, Oscillation] \<and>
   snd (guard_run [cmd_a, cmd_b, cmd_a] empty_repetition) = empty_repetition"
proof -
  have n: "cmd_a \<noteq> cmd_b" by code_simp
  have g1: "repetition_guard cmd_a empty_repetition
              = (Proceed, snd (repetition_guard cmd_a empty_repetition))"
    by code_simp
  have g2: "repetition_guard cmd_b (snd (repetition_guard cmd_a empty_repetition))
              = (Proceed, snd (repetition_guard cmd_b (snd (repetition_guard cmd_a empty_repetition))))"
    by code_simp
  from oscillation_rejected[OF n g1 g2]
  have g3: "repetition_guard cmd_a
              (snd (repetition_guard cmd_b (snd (repetition_guard cmd_a empty_repetition))))
              = (Oscillation, empty_repetition)"
    by blast
  show ?thesis
    using g3 by (simp add: prod.case_eq_if g1[THEN arg_cong, of fst] g2[THEN arg_cong, of fst])
qed

text \<open>
  In the series \<open>A\<close>, \<open>C\<close>, \<open>A\<close>, \<open>B\<close>, \<open>A\<close> of valid commands the graph returns to planning
  after every round.  The third call is rejected, which empties the repetition state; the
  fifth call, equal to the third and different from the fourth, is then passed on: the tool
  validates it (its fourth successful validation) and answers with a tool message.
\<close>

theorem oscillation_after_reset_counterexample:
  "cmd_a \<noteq> cmd_b \<and>
   fst (guard_run [cmd_a, cmd_c, cmd_a, cmd_b, cmd_a] empty_repetition)
     = [Proceed, Proceed, Oscillation, Proceed, Proceed] \<and>
   snd (snd (rounds plain_lib live_env
               [''move red_cube1 in red_box'', ''move red_cube1 on blue_box'',
                ''move red_cube1 in red_box'', ''move red_cube1 in blue_box'',
                ''move red_cube1 in red_box''] ([], fresh_agent, [])))
     = [Inr Continue, Inr Continue, Inr Continue, Inr Continue, Inr Continue] \<and>
   kind (last (fst (rounds plain_lib live_env
                      [''move red_cube1 in red_box'', ''move red_cube1 on blue_box'',
                       ''move red_cube1 in red_box'', ''move red_cube1 in blue_box'',
                       ''move red_cube1 in red_box''] ([], fresh_agent, [])))) = ToolMessage \<and>
   success_count (agent_tool (fst (snd (rounds plain_lib live_env
                      [''move red_cube1 in red_box'', ''move red_cube1 on blue_box'',
                       ''move red_cube1 in red_box'', ''move red_cube1 in blue_box'',
                       ''move red_cube1 in red_box''] ([], fresh_agent, []))))) = 4"
  by code_simp

subsection \<open>Repetition state and successful validation\<close>












subsection \<open>Routing after the validate-and-execute node\<close>

lemma py_in_prefix: "py_in s (s @ b)"
proof (cases "s @ b")
  case Nil
  then show ?thesis by simp
next
  case (Cons c cs)
  have "startswith (s @ b) s" by (simp add: startswith_def)
  then have "startswith (c # cs) s" using Cons by simp
  then have "py_in s (c # cs)" by simp
  then show ?thesis using Cons by simp
qed

lemma py_in_append: "py_in s (a @ s @ b)"
proof (induction a)
  case Nil
  then show ?case using py_in_prefix by simp
next
  case (Cons c a)
  then show ?case by simp
qed

lemma json_loads_letter_T: "json_loads_status l (CHR ''T'' # rest) = DecodeError"
  by (simp add: json_loads_status_def dq_def)

lemma feedback_content:
  "\<exists>rest. build_action_feedback_message l m p args
            = feedback_prefix p (case arg_query args of Some q \<Rightarrow> q | None \<Rightarrow> []) @ nl @ rest"
  by (auto simp add: build_action_feedback_message_def Let_def split: option.splits)

lemma validation_failed_content:
  assumes "status p = ''validation_failed''"
  shows "\<exists>rest. build_action_feedback_message l m p args
            = CHR ''T'' # rest \<and> startswith (CHR ''T'' # rest) (''The action '' @ sq)
              \<and> py_in ''is invalid, reason:'' (CHR ''T'' # rest)"
proof -
  obtain rest where r: "build_action_feedback_message l m p args
            = feedback_prefix p (case arg_query args of Some q \<Rightarrow> q | None \<Rightarrow> []) @ nl @ rest"
    using feedback_content by blast
  let ?q = "case arg_query args of Some q \<Rightarrow> q | None \<Rightarrow> []"
  let ?e = "case p_error_reason p of Some e \<Rightarrow> e | None \<Rightarrow> ''Unknown validation error''"
  have f: "feedback_prefix p ?q
             = (''The action '' @ sq @ ?q @ sq @ '' '') @ ''is invalid, reason:'' @ ('' '' @ ?e)"
    using assms by (simp add: feedback_prefix_def)
  have c: "build_action_feedback_message l m p args
             = (''The action '' @ sq @ ?q @ sq @ '' '') @ ''is invalid, reason:''
               @ ('' '' @ ?e @ nl @ rest)"
    using r f by simp
  have i: "py_in ''is invalid, reason:'' (build_action_feedback_message l m p args)"
    unfolding c by (rule py_in_append)
  have s: "startswith (build_action_feedback_message l m p args) (''The action '' @ sq)"
    unfolding c by (simp add: startswith_def sq_def)
  have h: "\<exists>rest'. build_action_feedback_message l m p args = CHR ''T'' # rest'"
    unfolding c by simp
  from h i s show ?thesis by auto
qed

lemma other_content:
  assumes "status p = ''task_failed'' \<or> status p = ''execution_success''"
  shows "\<exists>rest. build_action_feedback_message l m p args = CHR ''T'' # CHR ''h'' # rest"
proof -
  obtain rest where r: "build_action_feedback_message l m p args
            = feedback_prefix p (case arg_query args of Some q \<Rightarrow> q | None \<Rightarrow> []) @ nl @ rest"
    using feedback_content by blast
  show ?thesis unfolding r using assms by (auto simp add: feedback_prefix_def)
qed

lemma success_content:
  assumes "status p = ''execution_success''"
  shows "\<not> startswith (build_action_feedback_message l m p args) (''The action '' @ sq)"
proof -
  obtain rest where r: "build_action_feedback_message l m p args
            = feedback_prefix p (case arg_query args of Some q \<Rightarrow> q | None \<Rightarrow> []) @ nl @ rest"
    using feedback_content by blast
  show ?thesis unfolding r using assms by (simp add: feedback_prefix_def startswith_def sq_def)
qed

lemma not_marker: "\<not> startswith (CHR ''T'' # CHR ''h'' # rest) ''TASK_FAILED:''"
  by (simp add: startswith_def)

lemma last_tool_message_found:
  "msg_name m = Some ''ValidateAndExecuteAction'' \<Longrightarrow>
   last_tool_message (rev (msgs @ [m])) = Some m"
  by simp

lemma last_tool_message_found2:
  "msg_name m = Some ''ValidateAndExecuteAction'' \<Longrightarrow> msg_name c = None \<Longrightarrow>
   last_tool_message (rev (msgs @ [m, c])) = Some m"
  by simp

text \<open>
  C6.  After a round of the node in which the tool was called, a result with status
  \<open>validation_failed\<close> or \<open>task_failed\<close> makes the graph end: no further planning round
  follows.  A result with status \<open>execution_success\<close> leads back to the planning node,
  provided no message of the history carries the \<open>TASK_FAILED:\<close> marker.
\<close>

theorem stop_after_failed_round:
  assumes tc: "tool_calls m = call # others"
    and nm: "tc_name call = ''ValidateAndExecuteAction''"
    and gd: "fst (repetition_guard (tc_args call) (rep a)) = Proceed"
    and nd: "call_validate_execute l ev m a es = (outs, a1, es1)"
    and p: "p = fst (execute ev (case arg_query (tc_args call) of Some q \<Rightarrow> q | None \<Rightarrow> [])
                       (agent_tool a) es)"
  shows "(status p = ''validation_failed'' \<or> status p = ''task_failed'' \<longrightarrow>
            should_continue_after_execution l (msgs @ [m] @ outs) a1 = Inr End) \<and>
         (status p = ''execution_success'' \<and>
            (\<forall>x \<in> set (msgs @ [m]). \<not> startswith (content x) ''TASK_FAILED:'') \<longrightarrow>
            should_continue_after_execution l (msgs @ [m] @ outs) a1 = Inr Continue)"
proof -
  let ?q = "case arg_query (tc_args call) of Some q \<Rightarrow> q | None \<Rightarrow> []"
  obtain r1 where g: "repetition_guard (tc_args call) (rep a) = (Proceed, r1)"
    using gd by (cases "repetition_guard (tc_args call) (rep a)") auto
  obtain t1 es2 where ex: "execute ev ?q (agent_tool a) es = (p, t1, es2)"
    using p by (cases "execute ev ?q (agent_tool a) es") auto
  let ?c = "build_action_feedback_message l (manager t1) p (tc_args call)"
  let ?tm = "\<lparr>kind = ToolMessage, content = ?c,
              msg_name = Some ''ValidateAndExecuteAction'', tool_calls = []\<rparr>"
  let ?cm = "\<lparr>kind = SystemMessage,
              content = ''If the user goal is not completed, please continue planning.'',
              msg_name = None, tool_calls = []\<rparr>"
  have outs: "outs = (if status p = ''task_failed'' then [?tm, ?cm] else [?tm])"
    and recs: "records_say_failed a1 = (status p = ''task_failed'')"
    using nd tc nm g ex
    by (auto simp add: call_validate_execute_def Let_def records_say_failed_def)
  have ltm: "last_tool_message (rev (msgs @ [m] @ outs)) = Some ?tm"
    unfolding outs by simp
  have vf: "should_continue_after_execution l (msgs @ [m] @ outs) a1 = Inr End"
    if "status p = ''validation_failed''"
  proof -
    from validation_failed_content[OF that, of l "manager t1" "tc_args call"]
    obtain rest where c: "?c = CHR ''T'' # rest"
      and s: "startswith ?c (''The action '' @ sq)"
      and i: "py_in ''is invalid, reason:'' ?c" by auto
    have d: "json_loads_status l ?c = DecodeError"
      unfolding c by (rule json_loads_letter_T)
    show ?thesis
      using ltm d s i by (simp add: should_continue_after_execution_def Let_def)
  qed
  have tf: "should_continue_after_execution l (msgs @ [m] @ outs) a1 = Inr End"
    if "status p = ''task_failed''"
  proof -
    from other_content[of p l "manager t1" "tc_args call"] that
    obtain rest where c: "?c = CHR ''T'' # CHR ''h'' # rest" by auto
    have d: "json_loads_status l ?c = DecodeError"
      unfolding c by (rule json_loads_letter_T)
    show ?thesis
      using ltm d recs that by (simp add: should_continue_after_execution_def Let_def)
  qed
  have ok: "should_continue_after_execution l (msgs @ [m] @ outs) a1 = Inr Continue"
    if st: "status p = ''execution_success''"
      and nomark: "\<forall>x \<in> set (msgs @ [m]). \<not> startswith (content x) ''TASK_FAILED:''"
  proof -
    from other_content[of p l "manager t1" "tc_args call"] st
    obtain rest where c: "?c = CHR ''T'' # CHR ''h'' # rest" by auto
    have d: "json_loads_status l ?c = DecodeError"
      unfolding c by (rule json_loads_letter_T)
    have nm: "\<not> startswith ?c ''TASK_FAILED:''"
      unfolding c by (rule not_marker)
    have o: "outs = [?tm]" using outs st by simp
    have nomark': "\<not> (\<exists>x \<in> set (msgs @ [m] @ outs). startswith (content x) ''TASK_FAILED:'')"
      using nomark nm o by auto
    have r: "\<not> records_say_failed a1" using recs st by simp
    show ?thesis
      using ltm d nomark' r success_content[OF st, of l "manager t1" "tc_args call"]
      by (simp add: should_continue_after_execution_def Let_def)
  qed
  from vf tf ok show ?thesis by blast
qed

text \<open>
  A command for an unknown object ends the graph, a completed move returns to planning,
  and the sixth call after five failures ends the graph with \<open>task_failed\<close>.
\<close>

theorem stop_after_failed_round_witness:
  "should_continue_after_execution plain_lib
     ([] @ [planner_message ''move ghost on table'']
      @ fst (call_validate_execute plain_lib live_env
               (planner_message ''move ghost on table'') fresh_agent []))
     (fst (snd (call_validate_execute plain_lib live_env
                  (planner_message ''move ghost on table'') fresh_agent []))) = Inr End \<and>
   should_continue_after_execution plain_lib
     ([] @ [planner_message ''move red_cube1 in red_box'']
      @ fst (call_validate_execute plain_lib live_env
               (planner_message ''move red_cube1 in red_box'') fresh_agent [Trigger True]))
     (fst (snd (call_validate_execute plain_lib live_env
                  (planner_message ''move red_cube1 in red_box'') fresh_agent [Trigger True])))
     = Inr Continue \<and>
   should_continue_after_execution plain_lib
     ([] @ [planner_message ''move red_cube1 in red_box'']
      @ fst (call_validate_execute plain_lib live_env
               (planner_message ''move red_cube1 in red_box'') worn_out_agent []))
     (fst (snd (call_validate_execute plain_lib live_env
                  (planner_message ''move red_cube1 in red_box'') worn_out_agent []))) = Inr End"
proof -
  let ?g = "\<lparr>tc_name = ''ValidateAndExecuteAction'',
             tc_args = ToolArgs (Some ''move ghost on table''), tc_id = ''call''\<rparr>"
  let ?c = "\<lparr>tc_name = ''ValidateAndExecuteAction'',
             tc_args = ToolArgs (Some ''move red_cube1 in red_box''), tc_id = ''call''\<rparr>"
  have tg: "tool_calls (planner_message ''move ghost on table'') = ?g # []"
    by code_simp
  have tc: "tool_calls (planner_message ''move red_cube1 in red_box'') = ?c # []"
    by code_simp
  have ng: "tc_name ?g = ''ValidateAndExecuteAction''" by simp
  have nc: "tc_name ?c = ''ValidateAndExecuteAction''" by simp
  have gg: "fst (repetition_guard (tc_args ?g) (rep fresh_agent)) = Proceed" by code_simp
  have gc: "fst (repetition_guard (tc_args ?c) (rep fresh_agent)) = Proceed" by code_simp
  have gw: "fst (repetition_guard (tc_args ?c) (rep worn_out_agent)) = Proceed" by code_simp
  have s1: "status (fst (execute live_env ''move ghost on table'' (agent_tool fresh_agent) []))
              = ''validation_failed''"
    by code_simp
  have s2: "status (fst (execute live_env ''move red_cube1 in red_box'' (agent_tool fresh_agent)
                           [Trigger True])) = ''execution_success''"
    by code_simp
  have s3: "status (fst (execute live_env ''move red_cube1 in red_box''
                           (agent_tool worn_out_agent) [])) = ''task_failed''"
    by code_simp
  have m: "\<forall>x \<in> set ([] @ [planner_message ''move red_cube1 in red_box'']).
             \<not> startswith (content x) ''TASK_FAILED:''"
    by code_simp
  have nd: "call_validate_execute l ev x a es
              = (fst (call_validate_execute l ev x a es),
                 fst (snd (call_validate_execute l ev x a es)),
                 snd (snd (call_validate_execute l ev x a es)))" for l ev x a es
    by simp
  have r1: "should_continue_after_execution plain_lib
     ([] @ [planner_message ''move ghost on table'']
      @ fst (call_validate_execute plain_lib live_env
               (planner_message ''move ghost on table'') fresh_agent []))
     (fst (snd (call_validate_execute plain_lib live_env
                  (planner_message ''move ghost on table'') fresh_agent []))) = Inr End"
    using stop_after_failed_round[OF tg ng gg nd refl, where msgs = "[]"] s1
    by simp
  have r2: "should_continue_after_execution plain_lib
     ([] @ [planner_message ''move red_cube1 in red_box'']
      @ fst (call_validate_execute plain_lib live_env
               (planner_message ''move red_cube1 in red_box'') fresh_agent [Trigger True]))
     (fst (snd (call_validate_execute plain_lib live_env
                  (planner_message ''move red_cube1 in red_box'') fresh_agent [Trigger True])))
     = Inr Continue"
    using stop_after_failed_round[OF tc nc gc nd refl, where msgs = "[]"] s2 m
    by simp
  have r3: "should_continue_after_execution plain_lib
     ([] @ [planner_message ''move red_cube1 in red_box'']
      @ fst (call_validate_execute plain_lib live_env
               (planner_message ''move red_cube1 in red_box'') worn_out_agent []))
     (fst (snd (call_validate_execute plain_lib live_env
                  (planner_message ''move red_cube1 in red_box'') worn_out_agent []))) = Inr End"
    using stop_after_failed_round[OF tc nc gw nd refl, where msgs = "[]"] s3
    by simp
  from r1 r2 r3 show ?thesis by simp
qed

end
